theory Spec2Isabelle
  imports Main
begin

section \<open>Python values, strings and errors\<close>

text \<open>
  The values that travel through the annotation code are JSON values: an annotation
  arrives as a JSON request body, is kept as a JSON column or as JSON text inside a
  note, and is handed to pydantic as a dictionary of such values. Floating point
  numbers are left out of the value type. A Python dictionary is an association list
  in insertion order; Python strings are lists of 8-bit characters.
\<close>

datatype jval =
    JNull
  | JBool bool
  | JInt int
  | JStr string
  | JArr "jval list"
  | JObj "(string \<times> jval) list"

type_synonym pydict = "(string \<times> jval) list"

type_synonym bytes = "char list"

text \<open>
  Exceptions are values. The repository raises \<open>ValueError\<close> with a message for an
  unknown serializer, a delimiter collision, a missing identifier and a missing note;
  \<open>PaperlessAPIError\<close> wraps every failed HTTP request. The other constructors are the
  exceptions of the libraries the code calls.
\<close>

datatype error =
    ValueError string
  | PaperlessAPIError string
  | ValidationError
  | AttributeError string
  | IndexError
  | TypeError
  | DecodeError
  | DoesNotExist

subsection \<open>String operations of Python used by the code\<close>

definition startswith :: "string \<Rightarrow> string \<Rightarrow> bool" where
  "startswith s p = (take (length p) s = p)"

lemma startswith_code [code]:
  "startswith s [] = True"
  "startswith [] (p # ps) = False"
  "startswith (c # cs) (p # ps) = (c = p \<and> startswith cs ps)"
  by (auto simp: startswith_def)

fun find_index :: "string \<Rightarrow> string \<Rightarrow> nat option" where
  "find_index [] sub = (if sub = [] then Some 0 else None)"
| "find_index (c # cs) sub =
     (if startswith (c # cs) sub then Some 0
      else (case find_index cs sub of None \<Rightarrow> None | Some i \<Rightarrow> Some (Suc i)))"

text \<open>\<open>s.find(sub)\<close>: the lowest index where \<open>sub\<close> occurs, or \<open>-1\<close>.\<close>

definition str_find :: "string \<Rightarrow> string \<Rightarrow> int" where
  "str_find s sub = (case find_index s sub of None \<Rightarrow> - 1 | Some i \<Rightarrow> int i)"

text \<open>\<open>sub in s\<close>.\<close>

definition str_contains :: "string \<Rightarrow> string \<Rightarrow> bool" where
  "str_contains sub s = (find_index s sub \<noteq> None)"

text \<open>\<open>s[i:j]\<close> for indices that are not negative.\<close>

definition slice :: "string \<Rightarrow> nat \<Rightarrow> nat \<Rightarrow> string" where
  "slice s i j = take (j - i) (drop i s)"

text \<open>
  \<open>str.isspace\<close> and the line boundaries of \<open>str.splitlines\<close>, for the code points
  below 256.
\<close>

definition is_space :: "char \<Rightarrow> bool" where
  "is_space c = (c \<in> set [CHR 0x09, CHR 0x0A, CHR 0x0B, CHR 0x0C, CHR 0x0D,
                          CHR 0x1C, CHR 0x1D, CHR 0x1E, CHR 0x1F, CHR 0x20,
                          CHR 0x85, CHR 0xA0])"

definition is_linebreak :: "char \<Rightarrow> bool" where
  "is_linebreak c = (c \<in> set [CHR 0x0A, CHR 0x0B, CHR 0x0C, CHR 0x0D,
                              CHR 0x1C, CHR 0x1D, CHR 0x1E, CHR 0x85])"

definition strip :: "string \<Rightarrow> string" where
  "strip s = rev (dropWhile is_space (rev (dropWhile is_space s)))"

fun splitlines_from :: "string \<Rightarrow> string \<Rightarrow> string list" where
  "splitlines_from cur [] = (if cur = [] then [] else [cur])"
| "splitlines_from cur [c] =
     (if is_linebreak c then [cur] else [cur @ [c]])"
| "splitlines_from cur (c # d # cs) =
     (if c = CHR 0x0D \<and> d = CHR 0x0A then cur # splitlines_from [] cs
      else if is_linebreak c then cur # splitlines_from [] (d # cs)
      else splitlines_from (cur @ [c]) (d # cs))"

definition splitlines :: "string \<Rightarrow> string list" where
  "splitlines s = splitlines_from [] s"

text \<open>\<open>sep.join(xs)\<close>.\<close>

fun join :: "string \<Rightarrow> string list \<Rightarrow> string" where
  "join sep [] = []"
| "join sep [x] = x"
| "join sep (x # y # ys) = x @ sep @ join sep (y # ys)"

text \<open>\<open>s.replace(old, new)\<close> for a one-character \<open>old\<close>.\<close>

definition replace_char :: "char \<Rightarrow> string \<Rightarrow> string \<Rightarrow> string" where
  "replace_char old new s = concat (map (\<lambda>c. if c = old then new else [c]) s)"

text \<open>\<open>s.replace("\n\n", "\n")\<close>: occurrences are replaced from the left, not overlapping.\<close>

fun collapse_blank_lines :: "string \<Rightarrow> string" where
  "collapse_blank_lines (a # b # cs) =
     (if a = CHR 0x0A \<and> b = CHR 0x0A then CHR 0x0A # collapse_blank_lines cs
      else a # collapse_blank_lines (b # cs))"
| "collapse_blank_lines cs = cs"

text \<open>\<open>str(n)\<close> for an integer.\<close>

definition digit_char :: "nat \<Rightarrow> char" where
  "digit_char d = (''0123456789'' ! d)"

function str_nat :: "nat \<Rightarrow> string" where
  "str_nat n = (if n < 10 then [digit_char n] else str_nat (n div 10) @ [digit_char (n mod 10)])"
  by pat_completeness auto
termination
  by (relation "measure id") auto

declare str_nat.simps [simp del]

definition str_int :: "int \<Rightarrow> string" where
  "str_int i = (if i < 0 then CHR ''-'' # str_nat (nat (- i)) else str_nat (nat i))"

text \<open>Lower case of an ASCII letter; the case-insensitive prefix test of the document query.\<close>

definition lower_char :: "char \<Rightarrow> char" where
  "lower_char c =
     (case map_of (zip ''ABCDEFGHIJKLMNOPQRSTUVWXYZ'' ''abcdefghijklmnopqrstuvwxyz'') c of
        None \<Rightarrow> c | Some l \<Rightarrow> l)"

definition istartswith :: "string \<Rightarrow> string \<Rightarrow> bool" where
  "istartswith s p = startswith (map lower_char s) (map lower_char p)"

subsection \<open>Equality of Python values\<close>

text \<open>
  \<open>==\<close> on JSON values: \<open>bool\<close> is a subclass of \<open>int\<close>, so \<open>True == 1\<close>; lists are
  compared element by element, dictionaries key by key whatever the order.
\<close>

function py_eq :: "jval \<Rightarrow> jval \<Rightarrow> bool" where
  "py_eq JNull w = (w = JNull)"
| "py_eq (JBool a) w =
     (case w of JBool b \<Rightarrow> a = b | JInt n \<Rightarrow> (if a then 1 else 0) = n | _ \<Rightarrow> False)"
| "py_eq (JInt m) w =
     (case w of JInt n \<Rightarrow> m = n | JBool b \<Rightarrow> m = (if b then 1 else 0) | _ \<Rightarrow> False)"
| "py_eq (JStr s) w = (w = JStr s)"
| "py_eq (JArr xs) w = (case w of JArr ys \<Rightarrow> list_all2 py_eq xs ys | _ \<Rightarrow> False)"
| "py_eq (JObj kvs) w =
     (case w of
        JObj kws \<Rightarrow>
          length kvs = length kws \<and>
          list_all (\<lambda>kv. case map_of kws (fst kv) of None \<Rightarrow> False | Some v \<Rightarrow> py_eq (snd kv) v) kvs
      | _ \<Rightarrow> False)"
  by pat_completeness auto

lemma size_member_jval: "x \<in> set xs \<Longrightarrow> size x < Suc (size_list size xs)"
  by (induction xs) auto

lemma size_snd_member_jval:
  "kv \<in> set kvs \<Longrightarrow> size (snd kv) < Suc (size_list (size_prod (\<lambda>_. 0) size) kvs)"
  by (induction kvs) fastforce+

termination py_eq
  by (relation "measure (\<lambda>(v, w). size v)")
     (auto simp: size_member_jval size_snd_member_jval)

section \<open>The annotation entity\<close>

text \<open>
  \<open>class Annotation(BaseModel)\<close> with \<open>extra = "allow"\<close>: six declared fields and
  the extension fields, kept in the order in which they were given.
\<close>

record annotation =
  created :: string
  author :: string
  type :: int
  pageIndex :: int
  db_id :: "int option"
  contents :: "string option"
  extra :: pydict

definition field_names :: "string list" where
  "field_names = [''created'', ''author'', ''type'', ''pageIndex'', ''db_id'', ''contents'']"

definition of_opt_int :: "int option \<Rightarrow> jval" where
  "of_opt_int x = (case x of None \<Rightarrow> JNull | Some n \<Rightarrow> JInt n)"

definition of_opt_str :: "string option \<Rightarrow> jval" where
  "of_opt_str x = (case x of None \<Rightarrow> JNull | Some s \<Rightarrow> JStr s)"

text \<open>\<open>annotation.model_dump()\<close>: the declared fields in declaration order, then the extras.\<close>

definition model_dump :: "annotation \<Rightarrow> pydict" where
  "model_dump a =
     [(''created'', JStr (created a)),
      (''author'', JStr (author a)),
      (''type'', JInt (type a)),
      (''pageIndex'', JInt (pageIndex a)),
      (''db_id'', of_opt_int (db_id a)),
      (''contents'', of_opt_str (contents a))] @ extra a"

text \<open>
  Validation of one field, \<open>None\<close> when pydantic rejects the value. A value of the
  declared type is taken as it is; the conversions pydantic tries on a value of another
  type (a numeric string for an \<open>int\<close> field) are not modelled, such a value is rejected.
\<close>

definition required_str :: "jval option \<Rightarrow> string option" where
  "required_str x = (case x of Some (JStr s) \<Rightarrow> Some s | _ \<Rightarrow> None)"

definition default_str :: "string \<Rightarrow> jval option \<Rightarrow> string option" where
  "default_str d x = (case x of None \<Rightarrow> Some d | Some (JStr s) \<Rightarrow> Some s | _ \<Rightarrow> None)"

definition required_int :: "jval option \<Rightarrow> int option" where
  "required_int x = (case x of Some (JInt n) \<Rightarrow> Some n | _ \<Rightarrow> None)"

definition optional_int :: "jval option \<Rightarrow> int option option" where
  "optional_int x =
     (case x of None \<Rightarrow> Some None | Some JNull \<Rightarrow> Some None | Some (JInt n) \<Rightarrow> Some (Some n)
      | _ \<Rightarrow> None)"

definition optional_str :: "jval option \<Rightarrow> string option option" where
  "optional_str x =
     (case x of None \<Rightarrow> Some None | Some JNull \<Rightarrow> Some None | Some (JStr s) \<Rightarrow> Some (Some s)
      | _ \<Rightarrow> None)"

text \<open>\<open>Annotation(**d)\<close>: a \<open>ValidationError\<close> when a field is missing or has the wrong type.\<close>

definition Annotation_init :: "pydict \<Rightarrow> error + annotation" where
  "Annotation_init d =
     (case
        Option.bind (required_str (map_of d ''created'')) (\<lambda>c.
        Option.bind (default_str [] (map_of d ''author'')) (\<lambda>au.
        Option.bind (required_int (map_of d ''type'')) (\<lambda>t.
        Option.bind (required_int (map_of d ''pageIndex'')) (\<lambda>p.
        Option.bind (optional_int (map_of d ''db_id'')) (\<lambda>i.
        Option.bind (optional_str (map_of d ''contents'')) (\<lambda>co.
          Some \<lparr>created = c, author = au, type = t, pageIndex = p, db_id = i, contents = co,
                extra = filter (\<lambda>kv. fst kv \<notin> set field_names) d\<rparr>))))))
      of None \<Rightarrow> Inl ValidationError | Some a \<Rightarrow> Inr a)"

text \<open>
  Attribute access \<open>annotation.name\<close>: a declared field or an extension field; \<open>None\<close>
  stands for the \<open>AttributeError\<close> of a name that is neither.
\<close>

definition getattr :: "annotation \<Rightarrow> string \<Rightarrow> jval option" where
  "getattr a name = map_of (model_dump a) name"

section \<open>Serializer registry\<close>

text \<open>
  The two serializers call \<open>json\<close>, \<open>gzip\<close> and \<open>base64\<close> of the standard library
  and the UTF-8 codec of \<open>str\<close>. These library functions are parameters of the model;
  a function that can raise returns \<open>None\<close> for the exception.
\<close>

record codec_lib =
  json_dumps :: "nat option \<Rightarrow> jval \<Rightarrow> string"
  json_loads :: "string \<Rightarrow> jval option"
  str_encode :: "string \<Rightarrow> bytes"
  bytes_decode :: "bytes \<Rightarrow> string option"
  gzip_compress :: "bytes \<Rightarrow> bytes"
  gzip_decompress :: "bytes \<Rightarrow> bytes option"
  b85encode :: "bytes \<Rightarrow> bytes"
  b85decode :: "bytes \<Rightarrow> bytes option"

datatype serializer = Base85GzipJSONSerializer | JsonSerializer

fun NAME :: "serializer \<Rightarrow> string" where
  "NAME Base85GzipJSONSerializer = ''85gj''"
| "NAME JsonSerializer = ''ji2''"

text \<open>\<open>AnnoSerializer.__subclasses__()\<close>, in the order of definition.\<close>

definition subclasses :: "serializer list" where
  "subclasses = [Base85GzipJSONSerializer, JsonSerializer]"

definition unknown_serializer_message :: "string \<Rightarrow> string" where
  "unknown_serializer_message name =
     ''Serializer with name '' @ [CHR 0x27] @ name @ [CHR 0x27] @
     '' not found. Known serializers: '' @ join '', '' (map NAME subclasses)"

definition get_serializer_by_name :: "string \<Rightarrow> error + serializer" where
  "get_serializer_by_name name =
     (case find (\<lambda>sc. NAME sc = name) subclasses of
        Some sc \<Rightarrow> Inr sc
      | None \<Rightarrow> Inl (ValueError (unknown_serializer_message name)))"

fun serialize :: "codec_lib \<Rightarrow> serializer \<Rightarrow> jval \<Rightarrow> error + string" where
  "serialize L Base85GzipJSONSerializer obj =
     (case bytes_decode L (b85encode L (gzip_compress L (str_encode L (json_dumps L None obj)))) of
        None \<Rightarrow> Inl DecodeError | Some s \<Rightarrow> Inr s)"
| "serialize L JsonSerializer obj = Inr (json_dumps L (Some 2) obj)"

fun deserialize :: "codec_lib \<Rightarrow> serializer \<Rightarrow> string \<Rightarrow> error + jval" where
  "deserialize L Base85GzipJSONSerializer s =
     (case Option.bind (b85decode L (str_encode L s)) (\<lambda>z.
           Option.bind (gzip_decompress L z) (\<lambda>u.
           Option.bind (bytes_decode L u) (json_loads L))) of
        None \<Rightarrow> Inl DecodeError | Some v \<Rightarrow> Inr v)"
| "deserialize L JsonSerializer s =
     (case json_loads L s of None \<Rightarrow> Inl DecodeError | Some v \<Rightarrow> Inr v)"

section \<open>Note content codec\<close>

definition ANNOTATION_CONTENT_BEGIN :: string where
  "ANNOTATION_CONTENT_BEGIN = ''------------ DATA BEGIN ------------''"

definition ANNOTATION_CONTENT_END :: string where
  "ANNOTATION_CONTENT_END = ''------------ DATA END ------------''"

text \<open>
  The context handed to the header template. The template file, Django's template
  engine and the ISO-8601 parser of \<open>datetime\<close> are outside the repository: the
  configuration carries them as functions, next to the default serializer resolved
  from the \<open>ANNO_SERIALIZER\<close> setting.
\<close>

record header_context =
  ctx_author :: string
  ctx_page :: int
  ctx_page_index :: int
  ctx_created :: string
  ctx_comment :: string
  ctx_text :: "jval option"
  ctx_type :: int
  ctx_annotation :: annotation

record notes_config =
  default_anno_serializer :: serializer
  lib :: codec_lib
  render_template :: "header_context \<Rightarrow> string"
  fromisoformat_strftime :: "string \<Rightarrow> string option"

text \<open>
  \<open>_build_note_header\<close>. \<open>getattr(annotation, "custom", {}).get("text", None)\<close> raises
  an \<open>AttributeError\<close> when the extension field \<open>custom\<close> is not a dictionary.
\<close>

definition build_note_header :: "notes_config \<Rightarrow> annotation \<Rightarrow> error + string" where
  "build_note_header cfg a =
     (let created_formatted =
            (case fromisoformat_strftime cfg (replace_char CHR ''Z'' ''+00:00'' (created a)) of
               Some f \<Rightarrow> f | None \<Rightarrow> created a)
      in case (case map_of (extra a) ''custom'' of
                 None \<Rightarrow> Inr None
               | Some (JObj kv) \<Rightarrow> Inr (map_of kv ''text'')
               | Some _ \<Rightarrow> Inl (AttributeError ''get'')) of
           Inl e \<Rightarrow> Inl e
         | Inr txt \<Rightarrow>
             Inr (collapse_blank_lines (render_template cfg
               \<lparr>ctx_author = author a,
                ctx_page = pageIndex a + 1,
                ctx_page_index = pageIndex a,
                ctx_created = created_formatted,
                ctx_comment = (case contents a of None \<Rightarrow> [] | Some c \<Rightarrow> c),
                ctx_text = txt,
                ctx_type = type a,
                ctx_annotation = a\<rparr>)))"

definition delimiter_message :: "string \<Rightarrow> string" where
  "delimiter_message what =
     what @ '' contains reserved content delimiter '' @
     ANNOTATION_CONTENT_BEGIN @ '' or '' @ ANNOTATION_CONTENT_END"

text \<open>\<open>_anno_to_note_content\<close>.\<close>

definition anno_to_note_content :: "notes_config \<Rightarrow> annotation \<Rightarrow> error + string" where
  "anno_to_note_content cfg a =
     (case serialize (lib cfg) (default_anno_serializer cfg) (JObj (model_dump a)) of
        Inl e \<Rightarrow> Inl e
      | Inr ser \<Rightarrow>
          (let serialized = ser @ [CHR 0x0A] in
           case build_note_header cfg a of
             Inl e \<Rightarrow> Inl e
           | Inr header \<Rightarrow>
               if str_contains ANNOTATION_CONTENT_BEGIN header
                  \<or> str_contains ANNOTATION_CONTENT_END header
               then Inl (ValueError (delimiter_message ''Annotation header''))
               else if str_contains ANNOTATION_CONTENT_BEGIN serialized
                       \<or> str_contains ANNOTATION_CONTENT_END serialized
               then Inl (ValueError (delimiter_message ''Serialized annotation''))
               else Inr (header
                         @ [CHR 0x0A] @ ANNOTATION_CONTENT_BEGIN @ [CHR 0x0A]
                         @ NAME (default_anno_serializer cfg) @ [CHR 0x0A]
                         @ serialized
                         @ ANNOTATION_CONTENT_END)))"

text \<open>
  \<open>_note_content_to_anno\<close>: \<open>Inr None\<close> is the returned \<open>None\<close>. Indexing the empty
  list of lines raises \<open>IndexError\<close>; \<open>Annotation(**v)\<close> for a value that is not a
  dictionary raises \<open>TypeError\<close>.
\<close>

definition note_content_to_anno :: "codec_lib \<Rightarrow> string \<Rightarrow> error + annotation option" where
  "note_content_to_anno L note_content =
     (let begin_idx = str_find note_content ANNOTATION_CONTENT_BEGIN;
          end_idx = str_find note_content ANNOTATION_CONTENT_END
      in if begin_idx = - 1 \<or> end_idx = - 1 then Inr None
         else
           (let data_area =
                  strip (slice note_content
                           (nat (begin_idx + int (length ANNOTATION_CONTENT_BEGIN))) (nat end_idx))
            in case splitlines data_area of
                 [] \<Rightarrow> Inl IndexError
               | first_line # lines \<Rightarrow>
                   (let serializer_name = strip first_line in
                    if serializer_name = [] then Inr None
                    else
                      case get_serializer_by_name serializer_name of
                        Inl e \<Rightarrow> Inl e
                      | Inr serializer \<Rightarrow>
                          (case deserialize L serializer (join [CHR 0x0A] lines) of
                             Inl e \<Rightarrow> Inl e
                           | Inr JNull \<Rightarrow> Inr None
                           | Inr (JObj d) \<Rightarrow>
                               (case Annotation_init d of
                                  Inl e \<Rightarrow> Inl e | Inr a \<Rightarrow> Inr (Some a))
                           | Inr _ \<Rightarrow> Inl TypeError))))"

section \<open>The client of the document service\<close>

text \<open>
  The models of \<open>paperless_api.py\<close>, with the fields this code reads or writes. A
  \<open>Note\<close> also has a creation time and a user, a \<open>Document\<close> its other metadata; no
  function modelled here looks at them.
\<close>

record Note =
  note_id :: int
  note_text :: string

record CustomFieldInstance =
  cfi_value :: jval
  cfi_field :: int

record CustomField =
  cf_id :: int
  cf_name :: string
  data_type :: string

record Document =
  document_id :: int
  custom_fields :: "CustomFieldInstance list"

text \<open>The custom-field queries the code sends, as the service's query language writes them.\<close>

datatype cf_query =
    Exists string bool
  | IStartsWith string string
  | Negation cf_query

text \<open>
  The document service is reached through \<open>requests.Session.request\<close> only. A server is
  any function from a request and the service's state to a response and the next state;
  \<open>HttpError\<close> stands for every \<open>requests.RequestException\<close> (a failed connection, a
  status of 400 or more). The JSON bodies are given already parsed.
\<close>

datatype request =
    GetDocuments nat "cf_query option"
  | GetNotes int
  | PostNote int string
  | DeleteNote int "int option"
  | PatchDocument int "CustomFieldInstance list"
  | GetCustomFields nat
  | PostCustomField string string

datatype response =
    HttpError string
  | NotesJson "Note list"
  | DocumentsJson "Document list" "string option"
  | DocumentJson Document
  | CustomFieldsJson "CustomField list" "string option"
  | CustomFieldJson CustomField

type_synonym 's server = "request \<Rightarrow> 's \<Rightarrow> response \<times> 's"

text \<open>\<open>PaperlessAPI._request\<close>: every failure becomes a \<open>PaperlessAPIError\<close>.\<close>

definition request :: "'s server \<Rightarrow> request \<Rightarrow> 's \<Rightarrow> (error + response) \<times> 's" where
  "request srv r s =
     (case srv r s of
        (HttpError msg, s') \<Rightarrow> (Inl (PaperlessAPIError msg), s')
      | (resp, s') \<Rightarrow> (Inr resp, s'))"

text \<open>\<open>not payload.get("next")\<close>.\<close>

definition no_next :: "string option \<Rightarrow> bool" where
  "no_next nxt = (case nxt of None \<Rightarrow> True | Some url \<Rightarrow> url = [])"

definition document_notes :: "'s server \<Rightarrow> int \<Rightarrow> 's \<Rightarrow> (error + Note list) \<times> 's" where
  "document_notes srv d s =
     (case request srv (GetNotes d) s of
        (Inl e, s') \<Rightarrow> (Inl e, s')
      | (Inr (NotesJson ns), s') \<Rightarrow> (Inr ns, s')
      | (Inr _, s') \<Rightarrow> (Inl ValidationError, s'))"

text \<open>\<open>add_note_to_document\<close>: the last note of the returned list, \<open>None\<close> for an empty list.\<close>

definition add_note_to_document ::
  "'s server \<Rightarrow> int \<Rightarrow> string \<Rightarrow> 's \<Rightarrow> (error + Note option) \<times> 's" where
  "add_note_to_document srv d txt s =
     (case request srv (PostNote d txt) s of
        (Inl e, s') \<Rightarrow> (Inl e, s')
      | (Inr (NotesJson ns), s') \<Rightarrow> (Inr (if ns = [] then None else Some (last ns)), s')
      | (Inr _, s') \<Rightarrow> (Inl ValidationError, s'))"

text \<open>\<open>delete_note\<close>: the response body is not read; the method returns \<open>True\<close>.\<close>

definition delete_note :: "'s server \<Rightarrow> int \<Rightarrow> int option \<Rightarrow> 's \<Rightarrow> (error + bool) \<times> 's" where
  "delete_note srv d nid s =
     (case request srv (DeleteNote d nid) s of
        (Inl e, s') \<Rightarrow> (Inl e, s')
      | (Inr _, s') \<Rightarrow> (Inr True, s'))"


text \<open>
  A \<open>for\<close> loop over a list whose body threads an accumulator and the state and may
  raise: the first exception ends the loop.
\<close>

fun for_each ::
  "('x \<Rightarrow> 'a \<Rightarrow> 's \<Rightarrow> (error + 'a) \<times> 's) \<Rightarrow> 'x list \<Rightarrow> 'a \<Rightarrow> 's \<Rightarrow> (error + 'a) \<times> 's" where
  "for_each body [] acc s = (Inr acc, s)"
| "for_each body (x # xs) acc s =
     (case body x acc s of
        (Inl e, s') \<Rightarrow> (Inl e, s')
      | (Inr acc', s') \<Rightarrow> for_each body xs acc' s')"

text \<open>
  \<open>for doc in ppl.documents_custom_field_query_iter(query): body\<close>. The generator is
  lazy: the body runs on the documents of one page before the next page is requested.
\<close>

fun documents_custom_field_query_iter ::
  "nat \<Rightarrow> 's server \<Rightarrow> cf_query \<Rightarrow> nat \<Rightarrow> (Document \<Rightarrow> 'a \<Rightarrow> 's \<Rightarrow> (error + 'a) \<times> 's)
     \<Rightarrow> 'a \<Rightarrow> 's \<Rightarrow> ((error + 'a) \<times> 's) option" where
  "documents_custom_field_query_iter 0 srv q page body acc s = None"
| "documents_custom_field_query_iter (Suc fuel) srv q page body acc s =
     (case request srv (GetDocuments page (Some q)) s of
        (Inl e, s1) \<Rightarrow> Some (Inl e, s1)
      | (Inr (DocumentsJson results nxt), s1) \<Rightarrow>
          (case for_each body results acc s1 of
             (Inl e, s2) \<Rightarrow> Some (Inl e, s2)
           | (Inr acc', s2) \<Rightarrow>
               if no_next nxt then Some (Inr acc', s2)
               else documents_custom_field_query_iter fuel srv q (page + 1) body acc' s2)
      | (Inr _, s1) \<Rightarrow> Some (Inl ValidationError, s1))"

text \<open>
  \<open>get_custom_field_by_name\<close>: the first field of that name; the pages after the one
  that holds it are not requested.
\<close>

fun get_custom_field_by_name ::
  "nat \<Rightarrow> 's server \<Rightarrow> string \<Rightarrow> nat \<Rightarrow> 's \<Rightarrow> ((error + CustomField option) \<times> 's) option" where
  "get_custom_field_by_name 0 srv name page s = None"
| "get_custom_field_by_name (Suc fuel) srv name page s =
     (case request srv (GetCustomFields page) s of
        (Inl e, s1) \<Rightarrow> Some (Inl e, s1)
      | (Inr (CustomFieldsJson results nxt), s1) \<Rightarrow>
          (case find (\<lambda>cf. cf_name cf = name) results of
             Some cf \<Rightarrow> Some (Inr (Some cf), s1)
           | None \<Rightarrow>
               if no_next nxt then Some (Inr None, s1)
               else get_custom_field_by_name fuel srv name (page + 1) s1)
      | (Inr _, s1) \<Rightarrow> Some (Inl ValidationError, s1))"

definition create_custom_field ::
  "'s server \<Rightarrow> string \<Rightarrow> string \<Rightarrow> 's \<Rightarrow> (error + CustomField) \<times> 's" where
  "create_custom_field srv name dt s =
     (case request srv (PostCustomField name dt) s of
        (Inl e, s') \<Rightarrow> (Inl e, s')
      | (Inr (CustomFieldJson cf), s') \<Rightarrow> (Inr cf, s')
      | (Inr _, s') \<Rightarrow> (Inl ValidationError, s'))"

text \<open>
  The instance list \<open>add_custom_field_to_document\<close> sends: the first instance of the
  field gets the value, and a new instance is appended when there is none.
\<close>

fun set_field_value :: "int \<Rightarrow> jval \<Rightarrow> CustomFieldInstance list \<Rightarrow> CustomFieldInstance list" where
  "set_field_value fid v [] = [\<lparr>cfi_value = v, cfi_field = fid\<rparr>]"
| "set_field_value fid v (inst # insts) =
     (if cfi_field inst = fid then inst\<lparr>cfi_value := v\<rparr> # insts
      else inst # set_field_value fid v insts)"

definition add_custom_field_to_document ::
  "'s server \<Rightarrow> Document \<Rightarrow> int \<Rightarrow> string \<Rightarrow> 's \<Rightarrow> (error + Document) \<times> 's" where
  "add_custom_field_to_document srv doc custom_field_id v s =
     (case request srv
             (PatchDocument (document_id doc) (set_field_value custom_field_id (JStr v) (custom_fields doc))) s of
        (Inl e, s') \<Rightarrow> (Inl e, s')
      | (Inr (DocumentJson d), s') \<Rightarrow> (Inr d, s')
      | (Inr _, s') \<Rightarrow> (Inl ValidationError, s'))"

section \<open>Annotation storage\<close>

text \<open>
  A generator that may raise while it is consumed is the list of the items it yields
  and the exception that ends it, if any: the consumer's body has run on the items
  before the exception reaches it.
\<close>

type_synonym 'a generated = "'a list \<times> error option"

subsection \<open>Storage in the notes of the document service\<close>

text \<open>
  One step of the loop of \<open>PaperlessNotesStorage.get_annotations\<close>. Every exception
  raised while a note is decoded is caught and the note is skipped; a note that decodes
  to \<open>None\<close> raises on the assignment of \<open>db_id\<close> and is skipped the same way.
\<close>

definition decode_note :: "codec_lib \<Rightarrow> int option \<Rightarrow> Note \<Rightarrow> annotation list" where
  "decode_note L page n =
     (case note_content_to_anno L (note_text n) of
        Inr (Some a) \<Rightarrow>
          (let annotation = a\<lparr>db_id := Some (note_id n)\<rparr>
           in if page = None \<or> Some (pageIndex annotation) = page then [annotation] else [])
      | _ \<Rightarrow> [])"

definition notes_get_annotations ::
  "codec_lib \<Rightarrow> 's server \<Rightarrow> int \<Rightarrow> int option \<Rightarrow> 's \<Rightarrow> annotation generated \<times> 's" where
  "notes_get_annotations L srv d page s =
     (case document_notes srv d s of
        (Inl e, s') \<Rightarrow> (([], Some e), s')
      | (Inr notes, s') \<Rightarrow> ((concat (map (decode_note L page) notes), None), s'))"

definition notes_delete_annotation_by_id ::
  "'s server \<Rightarrow> int \<Rightarrow> int option \<Rightarrow> 's \<Rightarrow> (error + bool) \<times> 's" where
  "notes_delete_annotation_by_id srv d i s = delete_note srv d i s"

text \<open>
  The note is encoded while the arguments of \<open>add_note_to_document\<close> are evaluated,
  before the request. \<open>note.id\<close> of the \<open>None\<close> returned for an empty list raises
  \<open>AttributeError\<close>.
\<close>

definition add_encoded_note ::
  "notes_config \<Rightarrow> 's server \<Rightarrow> int \<Rightarrow> annotation \<Rightarrow> 's \<Rightarrow> (error + annotation) \<times> 's" where
  "add_encoded_note cfg srv d a s =
     (case anno_to_note_content cfg a of
        Inl e \<Rightarrow> (Inl e, s)
      | Inr content \<Rightarrow>
          (case add_note_to_document srv d content s of
             (Inl e, s') \<Rightarrow> (Inl e, s')
           | (Inr None, s') \<Rightarrow> (Inl (AttributeError ''id''), s')
           | (Inr (Some n), s') \<Rightarrow> (Inr (a\<lparr>db_id := Some (note_id n)\<rparr>), s')))"

definition notes_create_annotation ::
  "notes_config \<Rightarrow> 's server \<Rightarrow> int \<Rightarrow> annotation \<Rightarrow> 's \<Rightarrow> (error + annotation) \<times> 's" where
  "notes_create_annotation cfg srv d a s = add_encoded_note cfg srv d a s"


subsection \<open>Storage in the local table\<close>

text \<open>
  The table of the Django model \<open>DbAnnotation\<close>: the rows in primary-key order and the
  next value of the auto-increment key.
\<close>

record DbAnnotation =
  row_id :: int
  row_doc_id :: int
  row_db_id :: int
  row_page_index :: "int option"
  row_anno_obj :: jval

record db_table =
  rows :: "DbAnnotation list"
  next_row_id :: int

definition db_create_annotation ::
  "int \<Rightarrow> annotation \<Rightarrow> db_table \<Rightarrow> (error + annotation) \<times> db_table" where
  "db_create_annotation d a t =
     (let db_anno = \<lparr>row_id = next_row_id t,
                      row_doc_id = d,
                      row_db_id = (case db_id a of None \<Rightarrow> 0 | Some i \<Rightarrow> i),
                      row_page_index = Some (pageIndex a),
                      row_anno_obj = JObj (model_dump a)\<rparr>
      in (Inr (a\<lparr>db_id := Some (row_id db_anno)\<rparr>),
          t\<lparr>rows := rows t @ [db_anno], next_row_id := next_row_id t + 1\<rparr>))"

text \<open>
  The loop of \<open>DatabaseAnnotationStorage.get_annotations\<close> over the rows of the query:
  \<open>Annotation(**db_anno.anno_obj)\<close> is not guarded, so the first row that does not
  validate ends the generator with its exception.
\<close>

fun db_rows_to_annotations :: "int option \<Rightarrow> DbAnnotation list \<Rightarrow> annotation generated" where
  "db_rows_to_annotations page [] = ([], None)"
| "db_rows_to_annotations page (db_anno # more_rows) =
     (case (case row_anno_obj db_anno of JObj d \<Rightarrow> Annotation_init d | _ \<Rightarrow> Inl TypeError) of
        Inl e \<Rightarrow> ([], Some e)
      | Inr a \<Rightarrow>
          (let anno = a\<lparr>db_id := Some (row_id db_anno)\<rparr>;
               (annos, err) = db_rows_to_annotations page more_rows
           in if page = None \<or> Some (pageIndex anno) = page then (anno # annos, err)
              else (annos, err)))"

text \<open>\<open>if page:\<close> is false for page 0 as for \<open>None\<close>: the query then filters by document only.\<close>

definition db_query :: "int \<Rightarrow> int option \<Rightarrow> db_table \<Rightarrow> DbAnnotation list" where
  "db_query d page t =
     (if page \<noteq> None \<and> page \<noteq> Some 0
      then filter (\<lambda>r. row_doc_id r = d \<and> row_page_index r = page) (rows t)
      else filter (\<lambda>r. row_doc_id r = d) (rows t))"

definition db_get_annotations :: "int \<Rightarrow> int option \<Rightarrow> db_table \<Rightarrow> annotation generated" where
  "db_get_annotations d page t = db_rows_to_annotations page (db_query d page t)"

text \<open>\<open>DbAnnotation.objects.get(id=..., doc_id=...)\<close>.\<close>

definition db_get :: "int option \<Rightarrow> int \<Rightarrow> db_table \<Rightarrow> DbAnnotation option" where
  "db_get i d t = find (\<lambda>r. Some (row_id r) = i \<and> row_doc_id r = d) (rows t)"


definition db_delete_annotation_by_id ::
  "int \<Rightarrow> int option \<Rightarrow> db_table \<Rightarrow> (error + bool) \<times> db_table" where
  "db_delete_annotation_by_id d i t =
     (case db_get i d t of
        None \<Rightarrow> (Inr False, t)
      | Some db_anno \<Rightarrow> (Inr True, t\<lparr>rows := filter (\<lambda>r. row_id r \<noteq> row_id db_anno) (rows t)\<rparr>))"

subsection \<open>The configured storage\<close>

datatype storage = PaperlessNotesStorage | DatabaseAnnotationStorage

definition get_configured_annotation_storage :: "string \<Rightarrow> error + storage" where
  "get_configured_annotation_storage ANNO_STORAGE =
     (if ANNO_STORAGE = ''database'' then Inr DatabaseAnnotationStorage
      else if ANNO_STORAGE = ''paperless_notes'' then Inr PaperlessNotesStorage
      else Inl (ValueError (''Unknown annotation storage type: '' @ ANNO_STORAGE)))"

text \<open>The state an operation works on: the document service and the local table.\<close>

record 's world =
  remote :: 's
  local_table :: db_table

definition on_remote :: "('s \<Rightarrow> 'r \<times> 's) \<Rightarrow> 's world \<Rightarrow> 'r \<times> 's world" where
  "on_remote f w = (case f (remote w) of (r, s') \<Rightarrow> (r, w\<lparr>remote := s'\<rparr>))"

definition on_table :: "(db_table \<Rightarrow> 'r \<times> db_table) \<Rightarrow> 's world \<Rightarrow> 'r \<times> 's world" where
  "on_table f w = (case f (local_table w) of (r, t') \<Rightarrow> (r, w\<lparr>local_table := t'\<rparr>))"

fun get_annotations ::
  "storage \<Rightarrow> notes_config \<Rightarrow> 's server \<Rightarrow> int \<Rightarrow> int option \<Rightarrow> 's world
     \<Rightarrow> annotation generated \<times> 's world" where
  "get_annotations PaperlessNotesStorage cfg srv d page w =
     on_remote (notes_get_annotations (lib cfg) srv d page) w"
| "get_annotations DatabaseAnnotationStorage cfg srv d page w =
     (db_get_annotations d page (local_table w), w)"

fun create_annotation ::
  "storage \<Rightarrow> notes_config \<Rightarrow> 's server \<Rightarrow> int \<Rightarrow> annotation \<Rightarrow> 's world
     \<Rightarrow> (error + annotation) \<times> 's world" where
  "create_annotation PaperlessNotesStorage cfg srv d a w =
     on_remote (notes_create_annotation cfg srv d a) w"
| "create_annotation DatabaseAnnotationStorage cfg srv d a w =
     on_table (db_create_annotation d a) w"


fun delete_annotation_by_id ::
  "storage \<Rightarrow> 's server \<Rightarrow> int \<Rightarrow> int option \<Rightarrow> 's world \<Rightarrow> (error + bool) \<times> 's world" where
  "delete_annotation_by_id PaperlessNotesStorage srv d i w =
     on_remote (notes_delete_annotation_by_id srv d i) w"
| "delete_annotation_by_id DatabaseAnnotationStorage srv d i w =
     on_table (db_delete_annotation_by_id d i) w"

section \<open>The annotator\<close>

text \<open>
  The test of \<open>delete_anno\<close> for a reply. \<open>annotation.id\<close> is read only when the
  identifiers differ, and raises \<open>AttributeError\<close> when the annotation has no
  extension field \<open>id\<close>.
\<close>

definition is_reply :: "annotation \<Rightarrow> annotation \<Rightarrow> error + bool" where
  "is_reply annotation other_anno =
     (if db_id other_anno \<noteq> db_id annotation
      then (case getattr annotation ''id'' of
              None \<Rightarrow> Inl (AttributeError ''id'')
            | Some aid \<Rightarrow>
                Inr (py_eq (case getattr other_anno ''inReplyToId'' of None \<Rightarrow> JNull | Some v \<Rightarrow> v) aid))
      else Inr False)"

definition delete_if_reply ::
  "storage \<Rightarrow> 's server \<Rightarrow> int \<Rightarrow> annotation \<Rightarrow> annotation \<Rightarrow> unit \<Rightarrow> 's world
     \<Rightarrow> (error + unit) \<times> 's world" where
  "delete_if_reply st srv d annotation other_anno u w =
     (case is_reply annotation other_anno of
        Inl e \<Rightarrow> (Inl e, w)
      | Inr False \<Rightarrow> (Inr (), w)
      | Inr True \<Rightarrow>
          (case delete_annotation_by_id st srv d (db_id other_anno) w of
             (Inl e, w') \<Rightarrow> (Inl e, w')
           | (Inr _, w') \<Rightarrow> (Inr (), w')))"

definition delete_anno ::
  "storage \<Rightarrow> notes_config \<Rightarrow> 's server \<Rightarrow> int \<Rightarrow> annotation \<Rightarrow> 's world
     \<Rightarrow> (error + bool) \<times> 's world" where
  "delete_anno st cfg srv d annotation w =
     (case get_annotations st cfg srv d (Some (pageIndex annotation)) w of
        ((others, raised), w1) \<Rightarrow>
          (case for_each (delete_if_reply st srv d annotation) others () w1 of
             (Inl e, w2) \<Rightarrow> (Inl e, w2)
           | (Inr _, w2) \<Rightarrow>
               (case raised of
                  Some e \<Rightarrow> (Inl e, w2)
                | None \<Rightarrow> delete_annotation_by_id st srv d (db_id annotation) w2)))"





section \<open>Link synchronization\<close>

record settings =
  BASE_URL :: string
  CUSTOM_FIELD_NAME :: string

text \<open>
  \<open>reverse("view_document", kwargs={"doc_id": id})\<close> for the route
  \<open>path("view/<doc_id>", ...)\<close> of \<open>urls.py\<close>, mounted at the root of the site.
\<close>

definition reverse_view_document :: "int \<Rightarrow> string" where
  "reverse_view_document i = ''/view/'' @ str_int i"

text \<open>The module's \<open>_custom_field_cache\<close> dictionary travels with the state of the service.\<close>

type_synonym 's linker = "(string \<times> CustomField) list \<times> 's"

definition get_or_create_custom_link_field ::
  "nat \<Rightarrow> 's server \<Rightarrow> settings \<Rightarrow> 's linker \<Rightarrow> ((error + CustomField) \<times> 's linker) option" where
  "get_or_create_custom_link_field fuel srv cfg st =
     (case st of (cache, s) \<Rightarrow>
        (case map_of cache (CUSTOM_FIELD_NAME cfg) of
           Some cf \<Rightarrow> Some (Inr cf, (cache, s))
         | None \<Rightarrow>
             (case get_custom_field_by_name fuel srv (CUSTOM_FIELD_NAME cfg) 1 s of
                None \<Rightarrow> None
              | Some (Inl e, s1) \<Rightarrow> Some (Inl e, (cache, s1))
              | Some (Inr (Some cf), s1) \<Rightarrow> Some (Inr cf, ((CUSTOM_FIELD_NAME cfg, cf) # cache, s1))
              | Some (Inr None, s1) \<Rightarrow>
                  (case create_custom_field srv (CUSTOM_FIELD_NAME cfg) ''url'' s1 of
                     (Inl e, s2) \<Rightarrow> Some (Inl e, (cache, s2))
                   | (Inr cf, s2) \<Rightarrow> Some (Inr cf, ((CUSTOM_FIELD_NAME cfg, cf) # cache, s2))))))"

definition link_is_outdated_query :: "settings \<Rightarrow> cf_query" where
  "link_is_outdated_query cfg = Negation (IStartsWith (CUSTOM_FIELD_NAME cfg) (BASE_URL cfg @ ''/view/''))"

definition link_not_exists_query :: "settings \<Rightarrow> cf_query" where
  "link_not_exists_query cfg = Exists (CUSTOM_FIELD_NAME cfg) False"

text \<open>The value each of the two loops of \<open>update_document_links\<close> writes for a document.\<close>

definition missing_link_value :: "settings \<Rightarrow> int \<Rightarrow> string" where
  "missing_link_value cfg i = BASE_URL cfg @ reverse_view_document i"

definition outdated_link_value :: "settings \<Rightarrow> int \<Rightarrow> string" where
  "outdated_link_value cfg i = BASE_URL cfg @ ''/'' @ reverse_view_document i"

text \<open>
  The body shared by the two loops: a document of \<open>docs_to_skip\<close> is passed over; any
  other gets the value and its id is appended to \<open>updated_docs\<close>.
\<close>

definition write_link ::
  "'s server \<Rightarrow> int list \<Rightarrow> int \<Rightarrow> (int \<Rightarrow> string) \<Rightarrow> Document \<Rightarrow> int list \<Rightarrow> 's
     \<Rightarrow> (error + int list) \<times> 's" where
  "write_link srv docs_to_skip field_id link_value doc updated_docs s =
     (if document_id doc \<in> set docs_to_skip then (Inr updated_docs, s)
      else
        (case add_custom_field_to_document srv doc field_id (link_value (document_id doc)) s of
           (Inl e, s') \<Rightarrow> (Inl e, s')
         | (Inr _, s') \<Rightarrow> (Inr (updated_docs @ [document_id doc]), s')))"

definition with_cache :: "'c \<Rightarrow> ('r \<times> 's) option \<Rightarrow> ('r \<times> 'c \<times> 's) option" where
  "with_cache cache x = (case x of None \<Rightarrow> None | Some (r, s) \<Rightarrow> Some (r, (cache, s)))"

definition update_document_links ::
  "nat \<Rightarrow> 's server \<Rightarrow> settings \<Rightarrow> int list option \<Rightarrow> 's linker
     \<Rightarrow> ((error + int list) \<times> 's linker) option" where
  "update_document_links fuel srv cfg skip st =
     (let docs_to_skip = (case skip of None \<Rightarrow> [] | Some l \<Rightarrow> l) in
      case get_or_create_custom_link_field fuel srv cfg st of
        None \<Rightarrow> None
      | Some (Inl e, st1) \<Rightarrow> Some (Inl e, st1)
      | Some (Inr custom_field, (cache, s1)) \<Rightarrow>
          (case documents_custom_field_query_iter fuel srv (link_not_exists_query cfg) 1
                  (write_link srv docs_to_skip (cf_id custom_field) (missing_link_value cfg)) [] s1 of
             None \<Rightarrow> None
           | Some (Inl e, s2) \<Rightarrow> Some (Inl e, (cache, s2))
           | Some (Inr updated_docs, s2) \<Rightarrow>
               with_cache cache
                 (documents_custom_field_query_iter fuel srv (link_is_outdated_query cfg) 1
                    (write_link srv docs_to_skip (cf_id custom_field) (outdated_link_value cfg))
                    updated_docs s2)))"

section \<open>Two document services\<close>

subsection \<open>A scripted service\<close>

text \<open>
  The service that answers the requests it gets with the responses of a script, in
  order, whatever the requests are, and keeps a log of the requests. It stands for a
  service whose answers are known and nothing else: a stale index, a refused request.
  A request after the end of the script fails.
\<close>

record scripted =
  script :: "response list"
  log :: "request list"

definition scripted_server :: "scripted server" where
  "scripted_server r s =
     (case script s of
        [] \<Rightarrow> (HttpError ''no response'', s\<lparr>log := log s @ [r]\<rparr>)
      | resp # resps \<Rightarrow> (resp, \<lparr>script = resps, log = log s @ [r]\<rparr>))"

subsection \<open>A service that stores what it is sent\<close>

text \<open>
  A reference model of the document service: documents with their custom-field
  instances, the notes of all documents in the order of their creation, the custom
  fields, and the requests the service refuses (a permission the user lacks, an outage).
  Identifiers come from counters and are never used twice. A note is read, added and
  deleted through its document; a request for a document or a note that does not exist
  fails. Lists are paged with a fixed page size.
\<close>

record service =
  svc_documents :: "Document list"
  svc_notes :: "(int \<times> Note) list"
  svc_next_note_id :: int
  svc_fields :: "CustomField list"
  svc_next_field_id :: int
  svc_page_size :: nat
  svc_refused :: "request list"

definition notes_of :: "service \<Rightarrow> int \<Rightarrow> Note list" where
  "notes_of s d = map snd (filter (\<lambda>dn. fst dn = d) (svc_notes s))"

definition has_document :: "service \<Rightarrow> int \<Rightarrow> bool" where
  "has_document s d = (d \<in> set (map document_id (svc_documents s)))"

definition field_instance :: "service \<Rightarrow> string \<Rightarrow> Document \<Rightarrow> CustomFieldInstance option" where
  "field_instance s name doc =
     find (\<lambda>inst. cfi_field inst \<in> set (map cf_id (filter (\<lambda>cf. cf_name cf = name) (svc_fields s))))
          (custom_fields doc)"

fun matches :: "service \<Rightarrow> cf_query \<Rightarrow> Document \<Rightarrow> bool" where
  "matches s (Exists name b) doc = ((field_instance s name doc \<noteq> None) = b)"
| "matches s (IStartsWith name p) doc =
     (case field_instance s name doc of
        Some inst \<Rightarrow> (case cfi_value inst of JStr v \<Rightarrow> istartswith v p | _ \<Rightarrow> False)
      | None \<Rightarrow> False)"
| "matches s (Negation q) doc = (\<not> matches s q doc)"

definition page_of :: "nat \<Rightarrow> nat \<Rightarrow> 'a list \<Rightarrow> 'a list \<times> string option" where
  "page_of n page xs =
     (take n (drop ((page - 1) * n) xs),
      if page * n < length xs then Some ''next'' else None)"

fun service_server :: "service server" where
  "service_server r s =
     (if r \<in> set (svc_refused s) then (HttpError ''refused'', s)
      else
        (case r of
           GetDocuments page q \<Rightarrow>
             (case page_of (svc_page_size s) page
                     (case q of None \<Rightarrow> svc_documents s
                      | Some qq \<Rightarrow> filter (matches s qq) (svc_documents s)) of
                (results, nxt) \<Rightarrow> (DocumentsJson results nxt, s))
         | GetNotes d \<Rightarrow>
             (if has_document s d then (NotesJson (notes_of s d), s)
              else (HttpError ''not found'', s))
         | PostNote d txt \<Rightarrow>
             (if has_document s d
              then (let s' = s\<lparr>svc_notes := svc_notes s @ [(d, \<lparr>note_id = svc_next_note_id s, note_text = txt\<rparr>)],
                               svc_next_note_id := svc_next_note_id s + 1\<rparr>
                    in (NotesJson (notes_of s' d), s'))
              else (HttpError ''not found'', s))
         | DeleteNote d i \<Rightarrow>
             (case i of
                None \<Rightarrow> (HttpError ''no note id'', s)
              | Some n \<Rightarrow>
                  (if has_document s d \<and> n \<in> set (map note_id (notes_of s d))
                   then (let s' = s\<lparr>svc_notes := filter (\<lambda>dn. \<not> (fst dn = d \<and> note_id (snd dn) = n)) (svc_notes s)\<rparr>
                         in (NotesJson (notes_of s' d), s'))
                   else (HttpError ''not found'', s)))
         | PatchDocument d insts \<Rightarrow>
             (if has_document s d
              then (let s' = s\<lparr>svc_documents :=
                                  map (\<lambda>doc. if document_id doc = d then doc\<lparr>custom_fields := insts\<rparr> else doc)
                                      (svc_documents s)\<rparr>
                    in (DocumentJson \<lparr>document_id = d, custom_fields = insts\<rparr>, s'))
              else (HttpError ''not found'', s))
         | GetCustomFields page \<Rightarrow>
             (case page_of (svc_page_size s) page (svc_fields s) of
                (results, nxt) \<Rightarrow> (CustomFieldsJson results nxt, s))
         | PostCustomField name dt \<Rightarrow>
             (let cf = \<lparr>cf_id = svc_next_field_id s, cf_name = name, data_type = dt\<rparr>
              in (CustomFieldJson cf,
                  s\<lparr>svc_fields := svc_fields s @ [cf], svc_next_field_id := svc_next_field_id s + 1\<rparr>))))"

declare service_server.simps [simp del]

section \<open>An executable codec library\<close>

text \<open>
  The serializers are modelled over any codec library. To run them on examples, this
  section gives one: JSON text printed the way \<open>json.dumps\<close> prints it (the default
  separators, or an indentation) and read back by a parser, UTF-8, base 85, and a
  stand-in for gzip.
\<close>

definition hex_digit :: "nat \<Rightarrow> char" where
  "hex_digit d = (''0123456789abcdef'' ! d)"

definition escape_char :: "char \<Rightarrow> string" where
  "escape_char c =
     (if c = CHR 0x22 then [CHR 0x5C, CHR 0x22]
      else if c = CHR 0x5C then [CHR 0x5C, CHR 0x5C]
      else if c = CHR 0x0A then [CHR 0x5C, CHR ''n'']
      else if c = CHR 0x0D then [CHR 0x5C, CHR ''r'']
      else if c = CHR 0x09 then [CHR 0x5C, CHR ''t'']
      else if c = CHR 0x08 then [CHR 0x5C, CHR ''b'']
      else if c = CHR 0x0C then [CHR 0x5C, CHR ''f'']
      else (let n = (of_char c :: nat) in
            if 32 \<le> n \<and> n \<le> 126 then [c]
            else [CHR 0x5C, CHR ''u'', CHR ''0'', CHR ''0'', hex_digit (n div 16), hex_digit (n mod 16)]))"

definition json_string :: "string \<Rightarrow> string" where
  "json_string s = CHR 0x22 # concat (map escape_char s) @ [CHR 0x22]"

definition newline_indent :: "nat option \<Rightarrow> nat \<Rightarrow> string" where
  "newline_indent ind lvl = (case ind of None \<Rightarrow> [] | Some n \<Rightarrow> CHR 0x0A # replicate (n * lvl) CHR '' '')"

definition item_separator :: "nat option \<Rightarrow> nat \<Rightarrow> string" where
  "item_separator ind lvl = (case ind of None \<Rightarrow> '', '' | Some n \<Rightarrow> '','' @ newline_indent ind lvl)"

fun json_text :: "nat option \<Rightarrow> nat \<Rightarrow> jval \<Rightarrow> string" where
  "json_text ind lvl JNull = ''null''"
| "json_text ind lvl (JBool b) = (if b then ''true'' else ''false'')"
| "json_text ind lvl (JInt n) = str_int n"
| "json_text ind lvl (JStr s) = json_string s"
| "json_text ind lvl (JArr xs) =
     (if xs = [] then ''[]''
      else ''['' @ newline_indent ind (Suc lvl)
           @ join (item_separator ind (Suc lvl)) (map (json_text ind (Suc lvl)) xs)
           @ newline_indent ind lvl @ '']'')"
| "json_text ind lvl (JObj kvs) =
     (if kvs = [] then ''{}''
      else ''{'' @ newline_indent ind (Suc lvl)
           @ join (item_separator ind (Suc lvl))
               (map (\<lambda>kv. json_string (fst kv) @ '': '' @ json_text ind (Suc lvl) (snd kv)) kvs)
           @ newline_indent ind lvl @ ''}'')"

definition is_json_ws :: "char \<Rightarrow> bool" where
  "is_json_ws c = (c \<in> set [CHR 0x20, CHR 0x09, CHR 0x0A, CHR 0x0D])"

definition skip_ws :: "string \<Rightarrow> string" where
  "skip_ws s = dropWhile is_json_ws s"

definition hex_value :: "char \<Rightarrow> nat option" where
  "hex_value c = map_of (zip ''0123456789abcdefABCDEF'' ([0 ..< 16] @ [10 ..< 16])) c"

definition unescape_char :: "char \<Rightarrow> char option" where
  "unescape_char e =
     map_of [(CHR 0x22, CHR 0x22), (CHR 0x5C, CHR 0x5C), (CHR ''/'', CHR ''/''),
             (CHR ''b'', CHR 0x08), (CHR ''f'', CHR 0x0C), (CHR ''n'', CHR 0x0A),
             (CHR ''r'', CHR 0x0D), (CHR ''t'', CHR 0x09)] e"

text \<open>The characters of a string literal after the opening quote, up to the closing quote.\<close>

fun parse_chars :: "nat \<Rightarrow> string \<Rightarrow> (string \<times> string) option" where
  "parse_chars 0 s = None"
| "parse_chars (Suc n) [] = None"
| "parse_chars (Suc n) (c # cs) =
     (if c = CHR 0x22 then Some ([], cs)
      else if c = CHR 0x5C then
        (case cs of
           [] \<Rightarrow> None
         | e # r \<Rightarrow>
             if e = CHR ''u'' then
               (case map hex_value (take 4 r) of
                  [Some a, Some b, Some c', Some d] \<Rightarrow>
                    (if a = 0 \<and> b = 0
                     then map_option (apfst ((#) (char_of (16 * c' + d)))) (parse_chars n (drop 4 r))
                     else None)
                | _ \<Rightarrow> None)
             else
               (case unescape_char e of
                  None \<Rightarrow> None
                | Some ch \<Rightarrow> map_option (apfst ((#) ch)) (parse_chars n r)))
      else if (of_char c :: nat) < 32 then None
      else map_option (apfst ((#) c)) (parse_chars n cs))"

definition is_digit :: "char \<Rightarrow> bool" where
  "is_digit c = (c \<in> set ''0123456789'')"

definition digit_value :: "char \<Rightarrow> nat" where
  "digit_value c = (case map_of (zip ''0123456789'' [0 ..< 10]) c of None \<Rightarrow> 0 | Some d \<Rightarrow> d)"

definition digits_value :: "string \<Rightarrow> nat" where
  "digits_value ds = foldl (\<lambda>a c. 10 * a + digit_value c) 0 ds"

text \<open>An integer literal; a fraction or an exponent is a float, which the value type leaves out.\<close>

definition parse_int :: "string \<Rightarrow> (jval \<times> string) option" where
  "parse_int s =
     (let neg = (s \<noteq> [] \<and> hd s = CHR ''-'');
          t = (if neg then tl s else s);
          ds = takeWhile is_digit t;
          r = dropWhile is_digit t
      in if ds = [] \<or> (hd ds = CHR ''0'' \<and> length ds > 1) then None
         else if r \<noteq> [] \<and> hd r \<in> set ''.eE'' then None
         else Some (JInt (if neg then - int (digits_value ds) else int (digits_value ds)), r))"

text \<open>A key given twice keeps its first place and takes the last value, as a Python dictionary does.\<close>

definition dict_put :: "pydict \<Rightarrow> string \<times> jval \<Rightarrow> pydict" where
  "dict_put d kv =
     (if fst kv \<in> set (map fst d) then map (\<lambda>kw. if fst kw = fst kv then kv else kw) d
      else d @ [kv])"

fun parse_value :: "nat \<Rightarrow> string \<Rightarrow> (jval \<times> string) option"
  and parse_elements :: "nat \<Rightarrow> string \<Rightarrow> (jval list \<times> string) option"
  and parse_members :: "nat \<Rightarrow> string \<Rightarrow> (pydict \<times> string) option" where
  "parse_value 0 s = None"
| "parse_value (Suc n) s =
     (case skip_ws s of
        [] \<Rightarrow> None
      | c # cs \<Rightarrow>
          if startswith (c # cs) ''null'' then Some (JNull, drop 4 (c # cs))
          else if startswith (c # cs) ''true'' then Some (JBool True, drop 4 (c # cs))
          else if startswith (c # cs) ''false'' then Some (JBool False, drop 5 (c # cs))
          else if c = CHR 0x22 then map_option (apfst JStr) (parse_chars (length cs) cs)
          else if c = CHR ''['' then
            (case skip_ws cs of
               [] \<Rightarrow> None
             | d # ds \<Rightarrow> if d = CHR '']'' then Some (JArr [], ds)
                         else map_option (apfst JArr) (parse_elements n cs))
          else if c = CHR ''{'' then
            (case skip_ws cs of
               [] \<Rightarrow> None
             | d # ds \<Rightarrow> if d = CHR ''}'' then Some (JObj [], ds)
                         else map_option (apfst (\<lambda>kvs. JObj (foldl dict_put [] kvs))) (parse_members n cs))
          else parse_int (c # cs))"
| "parse_elements 0 s = None"
| "parse_elements (Suc n) s =
     (case parse_value n s of
        None \<Rightarrow> None
      | Some (v, r) \<Rightarrow>
          (case skip_ws r of
             [] \<Rightarrow> None
           | c # r' \<Rightarrow>
               if c = CHR '','' then map_option (apfst ((#) v)) (parse_elements n r')
               else if c = CHR '']'' then Some ([v], r')
               else None))"
| "parse_members 0 s = None"
| "parse_members (Suc n) s =
     (case skip_ws s of
        [] \<Rightarrow> None
      | q # s1 \<Rightarrow>
          if q \<noteq> CHR 0x22 then None
          else
            (case parse_chars (length s1) s1 of
               None \<Rightarrow> None
             | Some (k, s2) \<Rightarrow>
                 (case skip_ws s2 of
                    [] \<Rightarrow> None
                  | c # s3 \<Rightarrow>
                      if c \<noteq> CHR '':'' then None
                      else
                        (case parse_value n s3 of
                           None \<Rightarrow> None
                         | Some (v, r) \<Rightarrow>
                             (case skip_ws r of
                                [] \<Rightarrow> None
                              | c' # r' \<Rightarrow>
                                  if c' = CHR '','' then map_option (apfst ((#) (k, v))) (parse_members n r')
                                  else if c' = CHR ''}'' then Some ([(k, v)], r')
                                  else None)))))"

definition json_parse :: "string \<Rightarrow> jval option" where
  "json_parse s =
     (case parse_value (Suc (length s)) s of
        None \<Rightarrow> None
      | Some (v, r) \<Rightarrow> if skip_ws r = [] then Some v else None)"


text \<open>UTF-8 for the code points below 256.\<close>

definition utf8_encode :: "string \<Rightarrow> bytes" where
  "utf8_encode s =
     concat (map (\<lambda>c. let n = (of_char c :: int) in
                       if n < 128 then [c] else [char_of (192 + n div 64), char_of (128 + n mod 64)]) s)"

fun utf8_decode :: "bytes \<Rightarrow> string option" where
  "utf8_decode [] = Some []"
| "utf8_decode [c] = (if (of_char c :: int) < 128 then Some [c] else None)"
| "utf8_decode (c # d # cs) =
     (let n = (of_char c :: int); m = (of_char d :: int) in
      if n < 128 then map_option ((#) c) (utf8_decode (d # cs))
      else if (n = 194 \<or> n = 195) \<and> 128 \<le> m \<and> m < 192
      then map_option ((#) (char_of ((n - 192) * 64 + (m - 128)))) (utf8_decode cs)
      else None)"

text \<open>
  A stand-in for \<open>gzip\<close>: the two bytes of the gzip magic number in front of the
  data, which is kept as it is.
\<close>

definition gzip_store :: "bytes \<Rightarrow> bytes" where
  "gzip_store b = CHR 0x1F # CHR 0x8B # b"

definition gzip_unstore :: "bytes \<Rightarrow> bytes option" where
  "gzip_unstore z = (if take 2 z = [CHR 0x1F, CHR 0x8B] then Some (drop 2 z) else None)"

text \<open>Base 85 as \<open>base64.b85encode\<close> writes it: four bytes become five digits.\<close>

definition b85_alphabet :: string where
  "b85_alphabet =
     ''0123456789ABCDEFGHIJKLMNOPQRSTUVWXYZabcdefghijklmnopqrstuvwxyz!#$%&()*+-;<=>?@^_`{|}~''"

fun b85_words :: "bytes \<Rightarrow> int list" where
  "b85_words (a # b # c # d # r) =
     (((of_char a * 256 + of_char b) * 256 + of_char c) * 256 + of_char d) # b85_words r"
| "b85_words r = []"

definition b85_digits :: "int \<Rightarrow> string" where
  "b85_digits w =
     map (\<lambda>k. b85_alphabet ! nat (w div 85 ^ k mod 85)) [4, 3, 2, 1, 0]"

definition b85_encode :: "bytes \<Rightarrow> bytes" where
  "b85_encode b =
     (let padding = (4 - length b mod 4) mod 4;
          out = concat (map b85_digits (b85_words (b @ replicate padding (CHR 0x00))))
      in take (length out - padding) out)"

fun b85_groups :: "bytes \<Rightarrow> int option list" where
  "b85_groups (a # b # c # d # e # r) =
     (case map (\<lambda>x. map_of (zip b85_alphabet [0 .. 84]) x) [a, b, c, d, e] of
        [Some v4, Some v3, Some v2, Some v1, Some v0] \<Rightarrow>
          Some ((((v4 * 85 + v3) * 85 + v2) * 85 + v1) * 85 + v0)
      | _ \<Rightarrow> None) # b85_groups r"
| "b85_groups r = []"

definition b85_bytes :: "int \<Rightarrow> bytes" where
  "b85_bytes w = map (\<lambda>k. char_of (w div 256 ^ k mod 256)) [3, 2, 1, 0]"

definition b85_decode :: "bytes \<Rightarrow> bytes option" where
  "b85_decode b =
     (let padding = (5 - length b mod 5) mod 5;
          groups = b85_groups (b @ replicate padding (CHR ''~''))
      in if list_all (\<lambda>g. case g of None \<Rightarrow> False | Some w \<Rightarrow> w < 2 ^ 32) groups
         then (let out = concat (map (\<lambda>g. b85_bytes (the g)) groups)
               in Some (take (length out - padding) out))
         else None)"

definition stand_in_lib :: codec_lib where
  "stand_in_lib =
     \<lparr>json_dumps = (\<lambda>ind v. json_text ind 0 v), json_loads = json_parse,
      str_encode = utf8_encode, bytes_decode = utf8_decode,
      gzip_compress = gzip_store, gzip_decompress = gzip_unstore,
      b85encode = b85_encode, b85decode = b85_decode\<rparr>"


section \<open>Delimiter collisions (claim C3)\<close>

lemma startswith_iff: "startswith s p \<longleftrightarrow> (\<exists>r. s = p @ r)"
proof
  assume "startswith s p"
  then have "s = p @ drop (length p) s"
    by (metis append_take_drop_id startswith_def)
  then show "\<exists>r. s = p @ r" ..
next
  assume "\<exists>r. s = p @ r"
  then show "startswith s p" by (auto simp: startswith_def)
qed

lemma find_index_Some:
  "find_index s sub = Some i \<Longrightarrow> \<exists>post. s = take i s @ sub @ post \<and> i \<le> length s"
proof (induction s arbitrary: i)
  case Nil
  then show ?case by (auto split: if_splits)
next
  case (Cons c cs)
  show ?case
  proof (cases "startswith (c # cs) sub")
    case True
    with Cons.prems have "i = 0" by simp
    with True show ?thesis by (auto simp: startswith_iff)
  next
    case False
    with Cons.prems obtain j where j: "find_index cs sub = Some j" "i = Suc j"
      by (auto split: option.splits)
    from Cons.IH [OF j(1)] j(2) show ?thesis by auto
  qed
qed

lemma find_index_None:
  "find_index s sub = None \<Longrightarrow> s \<noteq> pre @ sub @ post"
proof (induction s arbitrary: pre)
  case Nil
  then show ?case by (auto split: if_splits)
next
  case (Cons c cs)
  from Cons.prems have ns: "\<not> startswith (c # cs) sub" and rest: "find_index cs sub = None"
    by (auto split: if_splits option.splits)
  show ?case
  proof (cases pre)
    case Nil
    with ns show ?thesis by (auto simp: startswith_iff)
  next
    case (Cons p ps)
    with Cons.IH [OF rest, of ps] show ?thesis by auto
  qed
qed

lemma str_contains_iff: "str_contains sub s \<longleftrightarrow> (\<exists>pre post. s = pre @ sub @ post)"
proof
  assume "str_contains sub s"
  then obtain i where "find_index s sub = Some i" by (auto simp: str_contains_def)
  from find_index_Some [OF this] show "\<exists>pre post. s = pre @ sub @ post" by blast
next
  assume "\<exists>pre post. s = pre @ sub @ post"
  then show "str_contains sub s"
    using find_index_None [of s sub] by (cases "find_index s sub") (auto simp: str_contains_def)
qed

lemma str_contains_append: "str_contains sub s \<Longrightarrow> str_contains sub (s @ t)"
  by (auto simp: str_contains_iff) (metis append.assoc)

text \<open>The error the specification calls \<open>ReservedDelimiterCollision\<close>: the \<open>ValueError\<close> of the encoder.\<close>

definition ReservedDelimiterCollision :: "string \<Rightarrow> error" where
  "ReservedDelimiterCollision what = ValueError (delimiter_message what)"

text \<open>
  Claim C3: when the rendered header or the serialized payload contains the BEGIN or the
  END delimiter, encoding raises the delimiter error, and \<open>create_annotation\<close> of the notes
  backend raises it with the state of the document service unchanged, for every service:
  no request has been sent.
\<close>

theorem create_annotation_rejects_delimiters:
  assumes "serialize (lib cfg) (default_anno_serializer cfg) (JObj (model_dump a)) = Inr payload"
    and "build_note_header cfg a = Inr header"
    and "str_contains ANNOTATION_CONTENT_BEGIN header \<or> str_contains ANNOTATION_CONTENT_END header
         \<or> str_contains ANNOTATION_CONTENT_BEGIN payload \<or> str_contains ANNOTATION_CONTENT_END payload"
  shows "anno_to_note_content cfg a =
           Inl (ReservedDelimiterCollision
                  (if str_contains ANNOTATION_CONTENT_BEGIN header \<or> str_contains ANNOTATION_CONTENT_END header
                   then ''Annotation header'' else ''Serialized annotation''))
         \<and> create_annotation PaperlessNotesStorage cfg srv d a w =
             (Inl (ReservedDelimiterCollision
                     (if str_contains ANNOTATION_CONTENT_BEGIN header \<or> str_contains ANNOTATION_CONTENT_END header
                      then ''Annotation header'' else ''Serialized annotation'')), w)"
proof -
  from assms(3) have
    "str_contains ANNOTATION_CONTENT_BEGIN header \<or> str_contains ANNOTATION_CONTENT_END header
     \<or> str_contains ANNOTATION_CONTENT_BEGIN (payload @ [CHR 0x0A])
     \<or> str_contains ANNOTATION_CONTENT_END (payload @ [CHR 0x0A])"
    by (auto intro: str_contains_append)
  with assms(1,2) have enc: "anno_to_note_content cfg a =
           Inl (ReservedDelimiterCollision
                  (if str_contains ANNOTATION_CONTENT_BEGIN header \<or> str_contains ANNOTATION_CONTENT_END header
                   then ''Annotation header'' else ''Serialized annotation''))"
    by (auto simp: anno_to_note_content_def ReservedDelimiterCollision_def Let_def)
  then show ?thesis
    by (simp add: on_remote_def notes_create_annotation_def add_encoded_note_def)
qed

text \<open>
  A configuration to run the codec on examples: a header template, and a formatter for
  timestamps of the shape \<open>YYYY-MM-DDTHH:MM\<close>.
\<close>

definition example_template :: "header_context \<Rightarrow> string" where
  "example_template c =
     ctx_author c @ '' - p. '' @ str_int (ctx_page c) @ '' ('' @ ctx_created c @ '')''
     @ [CHR 0x0A] @ ctx_comment c"

definition example_strftime :: "string \<Rightarrow> string option" where
  "example_strftime s =
     (if 16 \<le> length s \<and> s ! 4 = CHR ''-'' \<and> s ! 7 = CHR ''-'' \<and> s ! 10 = CHR ''T'' \<and> s ! 13 = CHR '':''
      then Some (take 4 s @ ''.'' @ take 2 (drop 5 s) @ ''.'' @ take 2 (drop 8 s) @ '' '' @ take 5 (drop 11 s))
      else None)"

definition example_config :: "serializer \<Rightarrow> notes_config" where
  "example_config ser =
     \<lparr>default_anno_serializer = ser, lib = stand_in_lib,
      render_template = example_template, fromisoformat_strftime = example_strftime\<rparr>"

definition colliding_annotation :: annotation where
  "colliding_annotation =
     \<lparr>created = ''2024-03-01T10:00:00Z'', author = ''alice'', type = 1, pageIndex = 2,
      db_id = None, contents = Some ''------------ DATA END ------------'', extra = []\<rparr>"


theorem create_annotation_rejects_delimiters_witness:
  "create_annotation PaperlessNotesStorage (example_config JsonSerializer) scripted_server 1
     colliding_annotation \<lparr>remote = \<lparr>script = [], log = []\<rparr>, local_table = \<lparr>rows = [], next_row_id = 1\<rparr>\<rparr>
   = (Inl (ReservedDelimiterCollision ''Annotation header''),
      \<lparr>remote = \<lparr>script = [], log = []\<rparr>, local_table = \<lparr>rows = [], next_row_id = 1\<rparr>\<rparr>)"
proof -
  let ?cfg = "example_config JsonSerializer"
  let ?payload = "json_text (Some 2) 0 (JObj (model_dump colliding_annotation))"
  let ?header = "example_template
       \<lparr>ctx_author = ''alice'', ctx_page = 3, ctx_page_index = 2, ctx_created = ''2024.03.01 10:00'',
        ctx_comment = ''------------ DATA END ------------'', ctx_text = None, ctx_type = 1,
        ctx_annotation = colliding_annotation\<rparr>"
  have s: "serialize (lib ?cfg) (default_anno_serializer ?cfg) (JObj (model_dump colliding_annotation)) = Inr ?payload"
    by (simp add: example_config_def stand_in_lib_def)
  have h: "build_note_header ?cfg colliding_annotation = Inr (collapse_blank_lines ?header)"
    by code_simp
  have c: "str_contains ANNOTATION_CONTENT_END (collapse_blank_lines ?header)"
    by code_simp
  from create_annotation_rejects_delimiters [OF s h, of scripted_server 1] c
  show ?thesis by simp
qed

section \<open>Decoding a note (claim C2)\<close>

text \<open>The error the specification calls \<open>UnknownSerializer\<close>: the \<open>ValueError\<close> of the registry.\<close>

definition UnknownSerializer :: "string \<Rightarrow> error" where
  "UnknownSerializer name = ValueError (unknown_serializer_message name)"

lemma get_serializer_by_name_unknown:
  "name \<notin> set (map NAME subclasses) \<Longrightarrow> get_serializer_by_name name = Inl (UnknownSerializer name)"
  by (auto simp: get_serializer_by_name_def UnknownSerializer_def subclasses_def)

lemma str_find_absent: "str_find s sub = - 1 \<longleftrightarrow> \<not> str_contains sub s"
  by (auto simp: str_find_def str_contains_def split: option.splits)

text \<open>
  Claim C2: a blob in which the BEGIN or the END delimiter is absent decodes to \<open>None\<close>
  and raises nothing. A blob with both delimiters, where the first line of the region
  between them (stripped, as the decoder reads it) is a name that is not empty and that
  no serializer is registered under, raises the unknown-serializer error; its message
  lists the names of the registered serializers.
\<close>

theorem decode_discrimination:
  "(\<not> str_contains ANNOTATION_CONTENT_BEGIN blob \<or> \<not> str_contains ANNOTATION_CONTENT_END blob
      \<longrightarrow> note_content_to_anno L blob = Inr None)
   \<and> (\<forall>b e first_line rest.
         find_index blob ANNOTATION_CONTENT_BEGIN = Some b
         \<and> find_index blob ANNOTATION_CONTENT_END = Some e
         \<and> splitlines (strip (slice blob (b + length ANNOTATION_CONTENT_BEGIN) e)) = first_line # rest
         \<and> strip first_line \<noteq> []
         \<and> strip first_line \<notin> set (map NAME subclasses)
         \<longrightarrow> note_content_to_anno L blob = Inl (UnknownSerializer (strip first_line)))
   \<and> (\<exists>pre. unknown_serializer_message name = pre @ ''Known serializers: 85gj, ji2'')"
proof (intro conjI allI impI)
  assume "\<not> str_contains ANNOTATION_CONTENT_BEGIN blob \<or> \<not> str_contains ANNOTATION_CONTENT_END blob"
  then show "note_content_to_anno L blob = Inr None"
    by (auto simp: note_content_to_anno_def str_find_absent Let_def)
next
  fix b e first_line rest
  assume h: "find_index blob ANNOTATION_CONTENT_BEGIN = Some b
         \<and> find_index blob ANNOTATION_CONTENT_END = Some e
         \<and> splitlines (strip (slice blob (b + length ANNOTATION_CONTENT_BEGIN) e)) = first_line # rest
         \<and> strip first_line \<noteq> []
         \<and> strip first_line \<notin> set (map NAME subclasses)"
  then have idx: "str_find blob ANNOTATION_CONTENT_BEGIN = int b" "str_find blob ANNOTATION_CONTENT_END = int e"
    by (simp_all add: str_find_def)
  have n: "nat (int b + int (length ANNOTATION_CONTENT_BEGIN)) = b + length ANNOTATION_CONTENT_BEGIN"
    by simp
  from h have u: "get_serializer_by_name (strip first_line) = Inl (UnknownSerializer (strip first_line))"
    by (intro get_serializer_by_name_unknown) simp
  from h show "note_content_to_anno L blob = Inl (UnknownSerializer (strip first_line))"
    by (simp add: note_content_to_anno_def idx n u Let_def)
next
  show "\<exists>pre. unknown_serializer_message name = pre @ ''Known serializers: 85gj, ji2''"
    by (simp add: unknown_serializer_message_def subclasses_def)
qed

definition human_note :: string where
  "human_note = ''Invoice checked, see ------------ DATA BEGIN ------------ of the scan''"

definition unknown_codec_note :: string where
  "unknown_codec_note =
     ''alice - p. 3'' @ [CHR 0x0A] @ ANNOTATION_CONTENT_BEGIN @ [CHR 0x0A] @ ''zstd'' @ [CHR 0x0A]
     @ ''KLUv/SAEIQAA'' @ [CHR 0x0A] @ ANNOTATION_CONTENT_END"


theorem decode_discrimination_witness:
  "note_content_to_anno stand_in_lib human_note = Inr None
   \<and> note_content_to_anno stand_in_lib unknown_codec_note = Inl (UnknownSerializer ''zstd'')"
proof -
  have a: "\<not> str_contains ANNOTATION_CONTENT_END human_note"
    by code_simp
  have b: "find_index unknown_codec_note ANNOTATION_CONTENT_BEGIN = Some 13"
    by code_simp
  have e: "find_index unknown_codec_note ANNOTATION_CONTENT_END = Some 68"
    by code_simp
  have l: "splitlines (strip (slice unknown_codec_note (13 + length ANNOTATION_CONTENT_BEGIN) 68))
            = ''zstd'' # [''KLUv/SAEIQAA'']"
    by code_simp
  have s: "strip ''zstd'' = ''zstd''"
    by code_simp
  have n: "''zstd'' \<notin> set (map NAME subclasses)"
    by code_simp
  from decode_discrimination [of human_note stand_in_lib] a
  have 1: "note_content_to_anno stand_in_lib human_note = Inr None" by blast
  from decode_discrimination [of unknown_codec_note stand_in_lib] b e l s n
  have 2: "note_content_to_anno stand_in_lib unknown_codec_note = Inl (UnknownSerializer ''zstd'')"
    by (metis list.distinct(1))
  from 1 2 show ?thesis ..
qed

section \<open>Listing with a malformed record (claim C7)\<close>

lemma decode_note_raises: "note_content_to_anno L (note_text n) = Inl e \<Longrightarrow> decode_note L page n = []"
  by (simp add: decode_note_def)

lemma decode_note_not_annotation: "note_content_to_anno L (note_text n) = Inr None \<Longrightarrow> decode_note L page n = []"
  by (simp add: decode_note_def)

lemma notes_get_annotations_skips:
  "document_notes srv d s = (Inr notes, s') \<Longrightarrow>
     notes_get_annotations L srv d page s = ((concat (map (decode_note L page) notes), None), s')"
  by (simp add: notes_get_annotations_def)

definition valid_annotation :: annotation where
  "valid_annotation =
     \<lparr>created = ''2024-03-01T10:00:00Z'', author = ''alice'', type = 1, pageIndex = 2,
      db_id = None, contents = Some ''see note'', extra = [(''id'', JStr ''A'')]\<rparr>"

definition malformed_obj :: jval where
  "malformed_obj = JObj [(''author'', JStr ''bob''), (''pageIndex'', JInt 2)]"

definition malformed_table :: db_table where
  "malformed_table =
     \<lparr>rows = [\<lparr>row_id = 1, row_doc_id = 1, row_db_id = 0, row_page_index = Some 2,
               row_anno_obj = malformed_obj\<rparr>,
              \<lparr>row_id = 2, row_doc_id = 1, row_db_id = 0, row_page_index = Some 2,
               row_anno_obj = JObj (model_dump valid_annotation)\<rparr>],
      next_row_id = 3\<rparr>"

definition malformed_notes :: service where
  "malformed_notes =
     \<lparr>svc_documents = [\<lparr>document_id = 1, custom_fields = []\<rparr>],
      svc_notes =
        [(1, \<lparr>note_id = 1,
              note_text = ''bob - p. 3'' @ [CHR 0x0A] @ ANNOTATION_CONTENT_BEGIN @ [CHR 0x0A]
                          @ ''ji2'' @ [CHR 0x0A] @ json_text (Some 2) 0 malformed_obj @ [CHR 0x0A]
                          @ ANNOTATION_CONTENT_END\<rparr>),
         (1, \<lparr>note_id = 2,
              note_text = ''alice - p. 3'' @ [CHR 0x0A] @ ANNOTATION_CONTENT_BEGIN @ [CHR 0x0A]
                          @ ''ji2'' @ [CHR 0x0A]
                          @ json_text (Some 2) 0 (JObj (model_dump valid_annotation)) @ [CHR 0x0A]
                          @ ANNOTATION_CONTENT_END\<rparr>)],
      svc_next_note_id = 3, svc_fields = [], svc_next_field_id = 1, svc_page_size = 25,
      svc_refused = []\<rparr>"

text \<open>
  Claim C7 says that both backends skip a stored record that does not decode or validate
  and go on with the records after it. The notes backend does (the three lemmas above:
  whatever the decoder raises, the note contributes nothing and the listing continues).
  The table backend does not guard \<open>Annotation(**db_anno.anno_obj)\<close>: with a first row
  that lacks the required fields and a valid second row, its listing ends with the
  \<open>ValidationError\<close> and yields nothing, where the notes backend, holding the same two
  records as notes, yields the valid one.
\<close>

theorem table_listing_aborts_on_malformed_row:
  "fst (get_annotations DatabaseAnnotationStorage (example_config JsonSerializer) service_server 1 None
          \<lparr>remote = malformed_notes, local_table = malformed_table\<rparr>)
     = ([], Some ValidationError)
   \<and> fst (get_annotations PaperlessNotesStorage (example_config JsonSerializer) service_server 1 None
          \<lparr>remote = malformed_notes, local_table = malformed_table\<rparr>)
     = ([valid_annotation\<lparr>db_id := Some 2\<rparr>], None)"
  by code_simp

section \<open>The notes of the service that stores what it is sent\<close>

lemma service_delete_note:
  "service_server (DeleteNote d i) s =
     (if DeleteNote d i \<in> set (svc_refused s) then (HttpError ''refused'', s)
      else case i of
        None \<Rightarrow> (HttpError ''no note id'', s)
      | Some n \<Rightarrow>
          if has_document s d \<and> n \<in> set (map note_id (notes_of s d))
          then (NotesJson (notes_of (s\<lparr>svc_notes := filter (\<lambda>dn. \<not> (fst dn = d \<and> note_id (snd dn) = n)) (svc_notes s)\<rparr>) d),
                s\<lparr>svc_notes := filter (\<lambda>dn. \<not> (fst dn = d \<and> note_id (snd dn) = n)) (svc_notes s)\<rparr>)
          else (HttpError ''not found'', s))"
  by (simp add: service_server.simps Let_def split: option.splits)


lemma service_get_notes:
  "service_server (GetNotes d) s =
     (if GetNotes d \<in> set (svc_refused s) then (HttpError ''refused'', s)
      else if has_document s d then (NotesJson (notes_of s d), s)
      else (HttpError ''not found'', s))"
  by (simp add: service_server.simps)

text \<open>The identifiers of the stored notes are distinct and below the counter.\<close>

definition note_ids :: "service \<Rightarrow> int list" where
  "note_ids s = map (\<lambda>dn. note_id (snd dn)) (svc_notes s)"

definition notes_wf :: "service \<Rightarrow> bool" where
  "notes_wf s = (distinct (note_ids s) \<and> list_all (\<lambda>i. i < svc_next_note_id s) (note_ids s))"



section \<open>Updating a note-based annotation (claim C10)\<close>











section \<open>Link repair (claims C4 and C5)\<close>

lemma outdated_link_value_differs:
  "outdated_link_value cfg i \<noteq> missing_link_value cfg i"
  by (simp add: outdated_link_value_def missing_link_value_def reverse_view_document_def)

lemma outdated_link_value_no_prefix:
  "\<not> istartswith (outdated_link_value cfg i) (BASE_URL cfg @ ''/view/'')"
  by (simp add: outdated_link_value_def istartswith_def startswith_def
        reverse_view_document_def lower_char_def)

definition link_settings :: settings where
  "link_settings = \<lparr>BASE_URL = ''http://pa.example'', CUSTOM_FIELD_NAME = ''Annotations''\<rparr>"

definition stale_link_service :: service where
  "stale_link_service =
     \<lparr>svc_documents =
        [\<lparr>document_id = 7,
          custom_fields = [\<lparr>cfi_value = JStr ''http://old.example/view/7'', cfi_field = 1\<rparr>]\<rparr>],
      svc_notes = [], svc_next_note_id = 1,
      svc_fields = [\<lparr>cf_id = 1, cf_name = ''Annotations'', data_type = ''url''\<rparr>],
      svc_next_field_id = 2, svc_page_size = 25, svc_refused = []\<rparr>"

text \<open>
  Claim C5 says that the repair pass overwrites an outdated link with the canonical
  URL, the value the fill-missing pass writes, which starts with the expected prefix.
  The code does not: the repair pass puts a second slash between \<open>BASE_URL\<close> and the
  path. For document 7, whose link points to another host, one call of
  \<open>update_document_links\<close> writes \<open>http://pa.example//view/7\<close>, where the fill-missing
  pass writes \<open>http://pa.example/view/7\<close>, and the document still matches the
  outdated-link query after the call.
\<close>

theorem repair_pass_writes_other_value:
  "(case update_document_links 1 service_server link_settings None ([], stale_link_service) of
      Some (Inr updated_docs, (cache, s')) \<Rightarrow>
        updated_docs = [7]
        \<and> map custom_fields (svc_documents s') =
            [[\<lparr>cfi_value = JStr ''http://pa.example//view/7'', cfi_field = 1\<rparr>]]
        \<and> map document_id
              (filter (matches s' (link_is_outdated_query link_settings)) (svc_documents s')) = [7]
    | _ \<Rightarrow> False)
   \<and> missing_link_value link_settings 7 = ''http://pa.example/view/7''"
  by code_simp

text \<open>The documents a loop of \<open>update_document_links\<close> writes, and the request it sends for each.\<close>

definition written :: "int list \<Rightarrow> Document list \<Rightarrow> Document list" where
  "written docs_to_skip docs = filter (\<lambda>doc. document_id doc \<notin> set docs_to_skip) docs"

definition link_patch :: "int \<Rightarrow> (int \<Rightarrow> string) \<Rightarrow> Document \<Rightarrow> request" where
  "link_patch field_id link_value doc =
     PatchDocument (document_id doc)
       (set_field_value field_id (JStr (link_value (document_id doc))) (custom_fields doc))"

lemma scripted_server_next:
  "scripted_server r \<lparr>script = resp # resps, log = lg\<rparr> = (resp, \<lparr>script = resps, log = lg @ [r]\<rparr>)"
  by (simp add: scripted_server_def)

lemma for_each_write_link_scripted:
  "for_each (write_link scripted_server skip fid val) docs acc
     \<lparr>script = map DocumentJson (written skip docs) @ rest, log = lg\<rparr>
   = (Inr (acc @ map document_id (written skip docs)),
      \<lparr>script = rest, log = lg @ map (link_patch fid val) (written skip docs)\<rparr>)"
proof (induction docs arbitrary: acc lg)
  case Nil
  then show ?case by (simp add: written_def)
next
  case (Cons doc docs)
  show ?case
  proof (cases "document_id doc \<in> set skip")
    case True
    then have "written skip (doc # docs) = written skip docs" by (simp add: written_def)
    with True Cons.IH show ?thesis by (simp add: write_link_def)
  next
    case False
    then have w: "written skip (doc # docs) = doc # written skip docs" by (simp add: written_def)
    from False have step: "write_link scripted_server skip fid val doc acc
        \<lparr>script = DocumentJson doc # (map DocumentJson (written skip docs) @ rest), log = lg\<rparr>
      = (Inr (acc @ [document_id doc]),
         \<lparr>script = map DocumentJson (written skip docs) @ rest, log = lg @ [link_patch fid val doc]\<rparr>)"
      by (simp add: write_link_def add_custom_field_to_document_def request_def
            scripted_server_next link_patch_def)
    show ?thesis
      by (simp add: w step Cons.IH)
  qed
qed

text \<open>
  Claim C4 as the code has it. One call of \<open>update_document_links\<close> consults the skip set
  it was given and nothing else: the documents the fill-missing pass writes are appended
  to the returned list but are not added to the skip set. Against a service that lists
  \<open>missing\<close> for the first query and \<open>outdated\<close> for the second, each on one page, the
  call writes every listed document that is not in the given skip set, in both passes,
  and returns their ids in that order; a document listed by both queries is written
  twice and its id is returned twice.
\<close>

theorem update_document_links_skip_set:
  assumes "cf_name cf = CUSTOM_FIELD_NAME cfg"
  shows "update_document_links (Suc fuel) scripted_server cfg skip
           ([], \<lparr>script = [CustomFieldsJson [cf] None, DocumentsJson missing None]
                         @ map DocumentJson (written (case skip of None \<Rightarrow> [] | Some l \<Rightarrow> l) missing)
                         @ [DocumentsJson outdated None]
                         @ map DocumentJson (written (case skip of None \<Rightarrow> [] | Some l \<Rightarrow> l) outdated),
                 log = []\<rparr>)
         = Some (Inr (map document_id (written (case skip of None \<Rightarrow> [] | Some l \<Rightarrow> l) missing)
                      @ map document_id (written (case skip of None \<Rightarrow> [] | Some l \<Rightarrow> l) outdated)),
                 ([(CUSTOM_FIELD_NAME cfg, cf)],
                  \<lparr>script = [],
                   log = [GetCustomFields 1, GetDocuments 1 (Some (link_not_exists_query cfg))]
                         @ map (link_patch (cf_id cf) (missing_link_value cfg))
                               (written (case skip of None \<Rightarrow> [] | Some l \<Rightarrow> l) missing)
                         @ [GetDocuments 1 (Some (link_is_outdated_query cfg))]
                         @ map (link_patch (cf_id cf) (outdated_link_value cfg))
                               (written (case skip of None \<Rightarrow> [] | Some l \<Rightarrow> l) outdated)\<rparr>))"
proof -
  let ?skip = "case skip of None \<Rightarrow> [] | Some l \<Rightarrow> l"
  let ?s0 = "\<lparr>script = [CustomFieldsJson [cf] None, DocumentsJson missing None]
                         @ map DocumentJson (written ?skip missing)
                         @ [DocumentsJson outdated None]
                         @ map DocumentJson (written ?skip outdated),
                 log = []\<rparr>"
  let ?s1 = "\<lparr>script = [DocumentsJson missing None]
                         @ map DocumentJson (written ?skip missing)
                         @ [DocumentsJson outdated None]
                         @ map DocumentJson (written ?skip outdated),
                 log = [GetCustomFields 1]\<rparr>"
  have field: "get_or_create_custom_link_field (Suc fuel) scripted_server cfg ([], ?s0)
                 = Some (Inr cf, ([(CUSTOM_FIELD_NAME cfg, cf)], ?s1))"
    using assms
    by (simp add: get_or_create_custom_link_field_def request_def scripted_server_next)
  let ?s2 = "\<lparr>script = [DocumentsJson outdated None] @ map DocumentJson (written ?skip outdated),
              log = [GetCustomFields 1, GetDocuments 1 (Some (link_not_exists_query cfg))]
                    @ map (link_patch (cf_id cf) (missing_link_value cfg)) (written ?skip missing)\<rparr>"
  have fill: "documents_custom_field_query_iter (Suc fuel) scripted_server (link_not_exists_query cfg) 1
                (write_link scripted_server ?skip (cf_id cf) (missing_link_value cfg)) [] ?s1
              = Some (Inr (map document_id (written ?skip missing)), ?s2)"
    using for_each_write_link_scripted [of ?skip "cf_id cf" "missing_link_value cfg" missing "[]"
        "[DocumentsJson outdated None] @ map DocumentJson (written ?skip outdated)"
        "[GetCustomFields 1, GetDocuments 1 (Some (link_not_exists_query cfg))]"]
    by (simp add: request_def scripted_server_next no_next_def)
  let ?s3 = "\<lparr>script = [],
              log = [GetCustomFields 1, GetDocuments 1 (Some (link_not_exists_query cfg))]
                    @ map (link_patch (cf_id cf) (missing_link_value cfg)) (written ?skip missing)
                    @ [GetDocuments 1 (Some (link_is_outdated_query cfg))]
                    @ map (link_patch (cf_id cf) (outdated_link_value cfg)) (written ?skip outdated)\<rparr>"
  have repair: "documents_custom_field_query_iter (Suc fuel) scripted_server (link_is_outdated_query cfg) 1
                (write_link scripted_server ?skip (cf_id cf) (outdated_link_value cfg))
                (map document_id (written ?skip missing)) ?s2
              = Some (Inr (map document_id (written ?skip missing) @ map document_id (written ?skip outdated)), ?s3)"
    using for_each_write_link_scripted [of ?skip "cf_id cf" "outdated_link_value cfg" outdated
        "map document_id (written ?skip missing)" "[]"
        "[GetCustomFields 1, GetDocuments 1 (Some (link_not_exists_query cfg))]
          @ map (link_patch (cf_id cf) (missing_link_value cfg)) (written ?skip missing)
          @ [GetDocuments 1 (Some (link_is_outdated_query cfg))]"]
    by (simp add: request_def scripted_server_next no_next_def)
  show ?thesis
    unfolding update_document_links_def Let_def
    by (simp only: field fill repair with_cache_def option.case prod.case sum.case)
qed


definition link_field :: CustomField where
  "link_field = \<lparr>cf_id = 1, cf_name = ''Annotations'', data_type = ''url''\<rparr>"

definition bare_document :: "int \<Rightarrow> Document" where
  "bare_document i = \<lparr>document_id = i, custom_fields = []\<rparr>"

theorem update_document_links_skip_set_witness:
  "cf_name link_field = CUSTOM_FIELD_NAME link_settings
   \<and> update_document_links 1 scripted_server link_settings (Some [3])
        ([], \<lparr>script = [CustomFieldsJson [link_field] None,
                         DocumentsJson [bare_document 3, bare_document 8] None,
                         DocumentJson (bare_document 8),
                         DocumentsJson [bare_document 9, bare_document 3] None,
                         DocumentJson (bare_document 9)],
               log = []\<rparr>)
      = Some (Inr [8, 9],
              ([(''Annotations'', link_field)],
               \<lparr>script = [],
                log = [GetCustomFields 1,
                       GetDocuments 1 (Some (Exists ''Annotations'' False)),
                       PatchDocument 8 [\<lparr>cfi_value = JStr ''http://pa.example/view/8'', cfi_field = 1\<rparr>],
                       GetDocuments 1 (Some (Negation (IStartsWith ''Annotations'' ''http://pa.example/view/''))),
                       PatchDocument 9 [\<lparr>cfi_value = JStr ''http://pa.example//view/9'', cfi_field = 1\<rparr>]]\<rparr>))"
proof -
  have n: "cf_name link_field = CUSTOM_FIELD_NAME link_settings"
    by (simp add: link_field_def link_settings_def)
  have v: "missing_link_value link_settings 8 = ''http://pa.example/view/8''"
          "outdated_link_value link_settings 9 = ''http://pa.example//view/9''"
    by code_simp+
  from update_document_links_skip_set [OF n, of 0 "Some [3]" "[bare_document 3, bare_document 8]"
      "[bare_document 9, bare_document 3]"] n
  show ?thesis
    by (simp add: written_def bare_document_def link_patch_def v [unfolded link_settings_def]
          link_not_exists_query_def link_is_outdated_query_def link_settings_def link_field_def)
qed

text \<open>
  The service answers from a stale index: document 7, which the fill-missing pass has
  just written, is listed by the outdated-link query of the same call.
\<close>

definition stale_index :: scripted where
  "stale_index =
     \<lparr>script = [CustomFieldsJson [link_field] None,
                DocumentsJson [bare_document 7] None,
                DocumentJson \<lparr>document_id = 7,
                              custom_fields = [\<lparr>cfi_value = JStr ''http://pa.example/view/7'', cfi_field = 1\<rparr>]\<rparr>,
                DocumentsJson [bare_document 7] None,
                DocumentJson \<lparr>document_id = 7,
                              custom_fields = [\<lparr>cfi_value = JStr ''http://pa.example//view/7'', cfi_field = 1\<rparr>]\<rparr>],
      log = []\<rparr>"

text \<open>
  Claim C4 as stated fails: document 7 is written by the fill-missing pass and again by
  the repair pass, and the returned list holds its id twice.
\<close>

theorem fill_pass_document_written_again:
  "(case update_document_links 1 scripted_server link_settings None ([], stale_index) of
      Some (Inr updated_docs, (cache, s')) \<Rightarrow>
        updated_docs = [7, 7]
        \<and> filter (\<lambda>r. case r of PatchDocument d insts \<Rightarrow> True | _ \<Rightarrow> False) (log s')
            = [PatchDocument 7 [\<lparr>cfi_value = JStr ''http://pa.example/view/7'', cfi_field = 1\<rparr>],
               PatchDocument 7 [\<lparr>cfi_value = JStr ''http://pa.example//view/7'', cfi_field = 1\<rparr>]]
    | _ \<Rightarrow> False)"
  by code_simp

section \<open>Deleting one record (claim C6)\<close>

lemma find_Some_member: "find P xs = Some x \<Longrightarrow> x \<in> set xs \<and> P x"
  by (induction xs) (auto split: if_splits)

lemma db_delete_annotation_by_id_found:
  "fst (db_delete_annotation_by_id d i t) = Inr (\<exists>r \<in> set (rows t). Some (row_id r) = i \<and> row_doc_id r = d)"
  by (auto simp: db_delete_annotation_by_id_def db_get_def find_None_iff
           split: option.splits dest: find_Some_member)

lemma db_delete_annotation_by_id_removed:
  "db_delete_annotation_by_id d (Some i) t = (Inr True, t') \<Longrightarrow> i \<notin> row_id ` set (rows t')"
  by (auto simp: db_delete_annotation_by_id_def db_get_def split: option.splits dest: find_Some_member)

lemma db_delete_annotation_by_id_absent:
  "fst (db_delete_annotation_by_id d i t) = Inr False \<Longrightarrow> snd (db_delete_annotation_by_id d i t) = t"
  by (auto simp: db_delete_annotation_by_id_def split: option.splits)

text \<open>
  Claim C6 says that, for both backends, \<open>delete_annotation_by_id\<close> returns false,
  without raising, when no record has the id. The table backend does so (the three
  lemmas above). The notes backend cannot: \<open>delete_note\<close> returns the constant \<open>True\<close>
  after the request, so whatever the service answers the result is \<open>True\<close> or a raised
  \<open>PaperlessAPIError\<close>, never \<open>False\<close>.
\<close>

theorem notes_delete_annotation_by_id_never_false:
  "fst (delete_annotation_by_id PaperlessNotesStorage srv d i w) \<noteq> Inr False"
  by (auto simp: on_remote_def notes_delete_annotation_by_id_def delete_note_def
           split: prod.splits sum.splits)

section \<open>What a storage holds\<close>

text \<open>
  The annotations a backend holds for a document, by page or for all pages: the notes of
  the document that decode, or the rows of the document.
\<close>

definition stored :: "storage \<Rightarrow> codec_lib \<Rightarrow> int \<Rightarrow> int option \<Rightarrow> service world \<Rightarrow> annotation list" where
  "stored st L d page w =
     (case st of
        PaperlessNotesStorage \<Rightarrow> concat (map (decode_note L page) (notes_of (remote w) d))
      | DatabaseAnnotationStorage \<Rightarrow> fst (db_get_annotations d page (local_table w)))"

text \<open>
  A row as \<open>create_annotation\<close> and \<open>update_annotation\<close> write it: the payload
  validates and the page column repeats its page.
\<close>

definition row_ok :: "DbAnnotation \<Rightarrow> bool" where
  "row_ok r =
     (case row_anno_obj r of
        JObj dct \<Rightarrow>
          (case Annotation_init dct of
             Inr a \<Rightarrow> row_page_index r = Some (pageIndex a)
           | Inl e \<Rightarrow> False)
      | _ \<Rightarrow> False)"

definition storage_wf :: "storage \<Rightarrow> service world \<Rightarrow> bool" where
  "storage_wf st w =
     (case st of
        PaperlessNotesStorage \<Rightarrow> notes_wf (remote w) \<and> svc_refused (remote w) = []
      | DatabaseAnnotationStorage \<Rightarrow>
          distinct (map row_id (rows (local_table w))) \<and> list_all row_ok (rows (local_table w)))"

definition doc_known :: "storage \<Rightarrow> service world \<Rightarrow> int \<Rightarrow> bool" where
  "doc_known st w d =
     (case st of PaperlessNotesStorage \<Rightarrow> has_document (remote w) d
      | DatabaseAnnotationStorage \<Rightarrow> True)"

subsection \<open>Notes\<close>

lemma decode_note_db_id: "a \<in> set (decode_note L page n) \<Longrightarrow> db_id a = Some (note_id n)"
  by (auto simp: decode_note_def Let_def split: sum.splits option.splits if_splits)

lemma decode_note_page:
  "decode_note L (Some p) n = filter (\<lambda>a. pageIndex a = p) (decode_note L None n)"
  by (auto simp: decode_note_def Let_def split: sum.splits option.splits)

lemma decode_note_filter_id:
  "filter (\<lambda>y. db_id y \<noteq> Some i) (decode_note L page n) = (if note_id n = i then [] else decode_note L page n)"
  by (auto simp: decode_note_def Let_def split: sum.splits option.splits)

lemma stored_notes_filter:
  "concat (map (decode_note L page) (filter (\<lambda>n. note_id n \<noteq> i) ns))
     = filter (\<lambda>y. db_id y \<noteq> Some i) (concat (map (decode_note L page) ns))"
  by (induction ns) (auto simp: decode_note_filter_id)

lemma notes_of_filter:
  "notes_of (s\<lparr>svc_notes := filter (\<lambda>dn. \<not> (fst dn = d \<and> note_id (snd dn) = i)) (svc_notes s)\<rparr>) d'
     = (if d' = d then filter (\<lambda>n. note_id n \<noteq> i) (notes_of s d) else notes_of s d')"
  by (auto simp: notes_of_def filter_map comp_def intro!: arg_cong [where f = "map snd"] filter_cong)

lemma notes_wf_filter:
  "notes_wf s \<Longrightarrow> notes_wf (s\<lparr>svc_notes := filter P (svc_notes s)\<rparr>)"
  by (auto simp: notes_wf_def note_ids_def list_all_iff distinct_map_filter)

lemma notes_listing:
  assumes "svc_refused s = []" "has_document s d"
  shows "notes_get_annotations L service_server d page s
           = ((concat (map (decode_note L page) (notes_of s d)), None), s)"
  using assms
  by (simp add: notes_get_annotations_def document_notes_def request_def service_get_notes)

lemma notes_delete:
  assumes "svc_refused s = []" "has_document s d" "i \<in> note_id ` set (notes_of s d)"
  shows "notes_delete_annotation_by_id service_server d (Some i) s
           = (Inr True, s\<lparr>svc_notes := filter (\<lambda>dn. \<not> (fst dn = d \<and> note_id (snd dn) = i)) (svc_notes s)\<rparr>)"
  using assms
  by (simp add: notes_delete_annotation_by_id_def delete_note_def request_def service_delete_note)

lemma stored_notes_ids:
  "a \<in> set (concat (map (decode_note L page) ns)) \<Longrightarrow> \<exists>n \<in> set ns. db_id a = Some (note_id n)"
  by (auto dest: decode_note_db_id)

lemma stored_notes_distinct:
  "distinct (map note_id ns) \<Longrightarrow> distinct (map db_id (concat (map (decode_note L page) ns)))"
proof (induction ns)
  case Nil
  then show ?case by simp
next
  case (Cons n ns)
  have one: "distinct (map db_id (decode_note L page n))"
    by (auto simp: decode_note_def Let_def split: sum.splits option.splits)
  from Cons show ?case
    by (auto simp: one dest!: decode_note_db_id stored_notes_ids) (metis image_eqI)
qed

lemma notes_of_ids_distinct: "notes_wf s \<Longrightarrow> distinct (map note_id (notes_of s d))"
  by (auto simp: notes_wf_def note_ids_def notes_of_def distinct_map_filter comp_def
           intro: distinct_map_filter)


subsection \<open>Rows\<close>

definition decode_row :: "int option \<Rightarrow> DbAnnotation \<Rightarrow> annotation list" where
  "decode_row page r =
     (case row_anno_obj r of
        JObj dct \<Rightarrow>
          (case Annotation_init dct of
             Inr a \<Rightarrow>
               (let anno = a\<lparr>db_id := Some (row_id r)\<rparr>
                in if page = None \<or> Some (pageIndex anno) = page then [anno] else [])
           | Inl e \<Rightarrow> [])
      | _ \<Rightarrow> [])"

lemma db_rows_to_annotations_ok:
  "list_all row_ok rs \<Longrightarrow> db_rows_to_annotations page rs = (concat (map (decode_row page) rs), None)"
  by (induction rs)
     (auto simp: row_ok_def decode_row_def Let_def split: jval.splits sum.splits)

lemma decode_row_db_id: "a \<in> set (decode_row page r) \<Longrightarrow> db_id a = Some (row_id r)"
  by (auto simp: decode_row_def Let_def split: jval.splits sum.splits if_splits)

lemma decode_row_page:
  "decode_row (Some p) r = filter (\<lambda>a. pageIndex a = p) (decode_row None r)"
  by (auto simp: decode_row_def Let_def split: jval.splits sum.splits)

lemma decode_row_other_page:
  "row_ok r \<Longrightarrow> row_page_index r \<noteq> Some p \<Longrightarrow> decode_row (Some p) r = []"
  by (auto simp: decode_row_def row_ok_def Let_def split: jval.splits sum.splits)

lemma decode_rows_page_filter:
  "list_all row_ok rs \<Longrightarrow>
     concat (map (decode_row (Some p)) (filter (\<lambda>r. row_doc_id r = d \<and> row_page_index r = Some p) rs))
       = concat (map (decode_row (Some p)) (filter (\<lambda>r. row_doc_id r = d) rs))"
  by (induction rs) (auto simp: decode_row_other_page)

lemma list_all_filter: "list_all P xs \<Longrightarrow> list_all P (filter Q xs)"
  by (simp add: list_all_iff)

lemma db_listing:
  assumes "list_all row_ok (rows t)"
  shows "db_get_annotations d page t
           = (concat (map (decode_row page) (filter (\<lambda>r. row_doc_id r = d) (rows t))), None)"
proof (cases "page \<noteq> None \<and> page \<noteq> Some 0")
  case True
  then obtain p where p: "page = Some p" by auto
  from assms have "list_all row_ok (filter (\<lambda>r. row_doc_id r = d \<and> row_page_index r = page) (rows t))"
    by (rule list_all_filter)
  with True p assms show ?thesis
    by (simp add: db_get_annotations_def db_query_def db_rows_to_annotations_ok decode_rows_page_filter)
next
  case False
  from assms have "list_all row_ok (filter (\<lambda>r. row_doc_id r = d) (rows t))"
    by (rule list_all_filter)
  with False show ?thesis
    by (auto simp: db_get_annotations_def db_query_def db_rows_to_annotations_ok)
qed

lemma decode_row_filter_id:
  "filter (\<lambda>y. db_id y \<noteq> Some i) (decode_row page r) = (if row_id r = i then [] else decode_row page r)"
  by (auto simp: decode_row_def Let_def split: jval.splits sum.splits)

lemma stored_rows_filter:
  "concat (map (decode_row page) (filter (\<lambda>r. row_id r \<noteq> i) rs))
     = filter (\<lambda>y. db_id y \<noteq> Some i) (concat (map (decode_row page) rs))"
  by (induction rs) (auto simp: decode_row_filter_id)

lemma stored_rows_ids:
  "a \<in> set (concat (map (decode_row page) rs)) \<Longrightarrow> \<exists>r \<in> set rs. db_id a = Some (row_id r)"
  by (auto dest: decode_row_db_id)

lemma stored_rows_distinct:
  "distinct (map row_id rs) \<Longrightarrow> distinct (map db_id (concat (map (decode_row page) rs)))"
proof (induction rs)
  case Nil
  then show ?case by simp
next
  case (Cons r rs)
  have one: "distinct (map db_id (decode_row page r))"
    by (auto simp: decode_row_def Let_def split: jval.splits sum.splits)
  from Cons show ?case
    by (auto simp: one dest!: decode_row_db_id stored_rows_ids) (metis image_eqI)
qed

lemma db_delete:
  assumes "r \<in> set (rows t)" "row_id r = i" "row_doc_id r = d"
  shows "db_delete_annotation_by_id d (Some i) t
           = (Inr True, t\<lparr>rows := filter (\<lambda>r. row_id r \<noteq> i) (rows t)\<rparr>)"
proof -
  from assms have "find (\<lambda>r. Some (row_id r) = Some i \<and> row_doc_id r = d) (rows t) \<noteq> None"
    by (auto simp: find_None_iff)
  then obtain r' where "find (\<lambda>r. Some (row_id r) = Some i \<and> row_doc_id r = d) (rows t) = Some r'"
    by auto
  moreover from this have "row_id r' = i" by (auto dest: find_Some_member)
  ultimately show ?thesis
    by (simp add: db_delete_annotation_by_id_def db_get_def)
qed

lemma filter_other_doc_rows:
  assumes "distinct (map row_id rs)" "r \<in> set rs" "row_doc_id r = d" "d' \<noteq> d"
  shows "filter (\<lambda>x. row_doc_id x = d') (filter (\<lambda>x. row_id x \<noteq> row_id r) rs)
           = filter (\<lambda>x. row_doc_id x = d') rs"
proof -
  have "x \<in> set rs \<Longrightarrow> row_doc_id x = d' \<Longrightarrow> row_id x \<noteq> row_id r" for x
    using assms by (auto simp: distinct_map inj_on_def)
  then show ?thesis
    by (auto intro: filter_cong)
qed

subsection \<open>Both backends\<close>

lemma stored_listing:
  assumes "storage_wf st w" "doc_known st w d"
  shows "get_annotations st cfg service_server d page w = ((stored st (lib cfg) d page w, None), w)"
proof (cases st)
  case PaperlessNotesStorage
  with assms show ?thesis
    by (simp add: storage_wf_def doc_known_def stored_def on_remote_def notes_listing)
next
  case DatabaseAnnotationStorage
  with assms show ?thesis
    by (simp add: storage_wf_def stored_def db_listing)
qed

lemma stored_page:
  assumes "storage_wf st w"
  shows "stored st L d (Some p) w = filter (\<lambda>a. pageIndex a = p) (stored st L d None w)"
proof (cases st)
  case PaperlessNotesStorage
  have "concat (map (decode_note L (Some p)) ns)
          = filter (\<lambda>a. pageIndex a = p) (concat (map (decode_note L None) ns))" for ns
    by (induction ns) (simp_all add: decode_note_page)
  with PaperlessNotesStorage show ?thesis by (simp add: stored_def)
next
  case DatabaseAnnotationStorage
  have "concat (map (decode_row (Some p)) rs)
          = filter (\<lambda>a. pageIndex a = p) (concat (map (decode_row None) rs))" for rs
    by (induction rs) (simp_all add: decode_row_page)
  with DatabaseAnnotationStorage assms show ?thesis
    by (simp add: stored_def storage_wf_def db_listing)
qed

lemma stored_distinct:
  assumes "storage_wf st w"
  shows "distinct (map db_id (stored st L d page w))"
proof (cases st)
  case PaperlessNotesStorage
  with assms show ?thesis
    by (simp add: stored_def storage_wf_def stored_notes_distinct notes_of_ids_distinct)
next
  case DatabaseAnnotationStorage
  with assms show ?thesis
    by (simp add: stored_def storage_wf_def db_listing stored_rows_distinct distinct_map_filter)
qed

lemma stored_delete:
  assumes wf: "storage_wf st w" and known: "doc_known st w d"
    and x: "x \<in> set (stored st L d None w)"
  shows "\<exists>w'. delete_annotation_by_id st service_server d (db_id x) w = (Inr True, w')
           \<and> storage_wf st w'
           \<and> (\<forall>d'. doc_known st w' d' = doc_known st w d')
           \<and> (\<forall>d' page. stored st L d' page w' =
                 (if d' = d then filter (\<lambda>y. db_id y \<noteq> db_id x) (stored st L d page w)
                  else stored st L d' page w))"
proof (cases st)
  case PaperlessNotesStorage
  let ?s = "remote w"
  from x PaperlessNotesStorage obtain n where n: "n \<in> set (notes_of ?s d)" "db_id x = Some (note_id n)"
    by (auto simp: stored_def dest: decode_note_db_id)
  define s' where "s' = ?s\<lparr>svc_notes := filter (\<lambda>dn. \<not> (fst dn = d \<and> note_id (snd dn) = note_id n)) (svc_notes ?s)\<rparr>"
  from wf known n PaperlessNotesStorage
  have del: "delete_annotation_by_id st service_server d (db_id x) w = (Inr True, w\<lparr>remote := s'\<rparr>)"
    unfolding s'_def by (simp add: storage_wf_def doc_known_def on_remote_def notes_delete)
  from wf PaperlessNotesStorage have wf': "storage_wf st (w\<lparr>remote := s'\<rparr>)"
    unfolding s'_def by (simp add: storage_wf_def notes_wf_filter)
  have known': "doc_known st (w\<lparr>remote := s'\<rparr>) d' = doc_known st w d'" for d'
    using PaperlessNotesStorage unfolding s'_def by (simp add: doc_known_def has_document_def)
  have no: "notes_of s' d' = (if d' = d then filter (\<lambda>m. note_id m \<noteq> note_id n) (notes_of ?s d) else notes_of ?s d')" for d'
    unfolding s'_def by (rule notes_of_filter)
  have st': "stored st L d' page (w\<lparr>remote := s'\<rparr>) =
                 (if d' = d then filter (\<lambda>y. db_id y \<noteq> db_id x) (stored st L d page w)
                  else stored st L d' page w)" for d' page
    using PaperlessNotesStorage n(2)
    by (simp add: stored_def no stored_notes_filter)
  from del wf' known' st' show ?thesis by blast
next
  case DatabaseAnnotationStorage
  let ?t = "local_table w"
  from wf DatabaseAnnotationStorage have ok: "list_all row_ok (rows ?t)" and dist: "distinct (map row_id (rows ?t))"
    by (simp_all add: storage_wf_def)
  from x DatabaseAnnotationStorage ok obtain r where r: "r \<in> set (rows ?t)" "row_doc_id r = d" "db_id x = Some (row_id r)"
    by (auto simp: stored_def db_listing dest: decode_row_db_id)
  define t' where "t' = ?t\<lparr>rows := filter (\<lambda>x. row_id x \<noteq> row_id r) (rows ?t)\<rparr>"
  from r DatabaseAnnotationStorage
  have del: "delete_annotation_by_id st service_server d (db_id x) w = (Inr True, w\<lparr>local_table := t'\<rparr>)"
    unfolding t'_def by (simp add: on_table_def db_delete [of r])
  have ok': "list_all row_ok (rows t')"
    unfolding t'_def using ok by (simp add: list_all_filter)
  from ok' dist DatabaseAnnotationStorage have wf': "storage_wf st (w\<lparr>local_table := t'\<rparr>)"
    unfolding t'_def by (simp add: storage_wf_def distinct_map_filter)
  have known': "doc_known st (w\<lparr>local_table := t'\<rparr>) d' = doc_known st w d'" for d'
    using DatabaseAnnotationStorage by (simp add: doc_known_def)
  have same: "filter (\<lambda>x. row_doc_id x = d) (rows t')
            = filter (\<lambda>x. row_id x \<noteq> row_id r) (filter (\<lambda>x. row_doc_id x = d) (rows ?t))"
    unfolding t'_def by (auto intro: filter_cong)
  have other: "d' \<noteq> d \<Longrightarrow> filter (\<lambda>x. row_doc_id x = d') (rows t') = filter (\<lambda>x. row_doc_id x = d') (rows ?t)" for d'
    unfolding t'_def using filter_other_doc_rows [OF dist r(1) r(2)] by simp
  have new: "stored st L d' page (w\<lparr>local_table := t'\<rparr>)
               = concat (map (decode_row page) (filter (\<lambda>x. row_doc_id x = d') (rows t')))" for d' page
    using DatabaseAnnotationStorage ok' by (simp add: stored_def db_listing)
  have old: "stored st L d' page w
               = concat (map (decode_row page) (filter (\<lambda>x. row_doc_id x = d') (rows ?t)))" for d' page
    using DatabaseAnnotationStorage ok by (simp add: stored_def db_listing)
  have st': "stored st L d' page (w\<lparr>local_table := t'\<rparr>) =
                 (if d' = d then filter (\<lambda>y. db_id y \<noteq> db_id x) (stored st L d page w)
                  else stored st L d' page w)" for d' page
  proof (cases "d' = d")
    case True
    have "stored st L d page (w\<lparr>local_table := t'\<rparr>)
            = concat (map (decode_row page)
                (filter (\<lambda>x. row_id x \<noteq> row_id r) (filter (\<lambda>x. row_doc_id x = d) (rows ?t))))"
      by (simp only: new same)
    also have "\<dots> = filter (\<lambda>y. db_id y \<noteq> Some (row_id r))
                       (concat (map (decode_row page) (filter (\<lambda>x. row_doc_id x = d) (rows ?t))))"
      by (rule stored_rows_filter)
    also have "\<dots> = filter (\<lambda>y. db_id y \<noteq> db_id x) (stored st L d page w)"
      by (simp only: old r(3))
    finally show ?thesis using True by simp
  next
    case False
    then show ?thesis
      by (simp add: new old other [OF False])
  qed
  from del wf' known' st' show ?thesis by blast
qed

section \<open>Cascade deletion (claim C9)\<close>

text \<open>The value \<open>getattr(other_anno, "inReplyToId", None)\<close>.\<close>

definition in_reply_to :: "annotation \<Rightarrow> jval" where
  "in_reply_to a = (case getattr a ''inReplyToId'' of None \<Rightarrow> JNull | Some v \<Rightarrow> v)"

lemma distinct_map_eqD:
  "distinct (map f xs) \<Longrightarrow> x \<in> set xs \<Longrightarrow> y \<in> set xs \<Longrightarrow> f x = f y \<Longrightarrow> x = y"
  by (meson distinct_map inj_onD)

lemma is_reply_with_id:
  "getattr annotation ''id'' = Some aid \<Longrightarrow>
     is_reply annotation x = Inr (db_id x \<noteq> db_id annotation \<and> py_eq (in_reply_to x) aid)"
  by (simp add: is_reply_def in_reply_to_def)

lemma delete_replies:
  assumes "getattr annotation ''id'' = Some aid"
  shows "storage_wf st w \<Longrightarrow> doc_known st w d \<Longrightarrow> set xs \<subseteq> set (stored st L d None w) \<Longrightarrow>
         distinct (map db_id xs) \<Longrightarrow>
         \<exists>w'. for_each (delete_if_reply st service_server d annotation) xs () w = (Inr (), w')
           \<and> storage_wf st w'
           \<and> (\<forall>d'. doc_known st w' d' = doc_known st w d')
           \<and> (\<forall>d' page. stored st L d' page w' =
                 (if d' = d
                  then filter (\<lambda>y. \<not> (\<exists>x \<in> set xs. db_id x \<noteq> db_id annotation
                                         \<and> py_eq (in_reply_to x) aid \<and> db_id y = db_id x))
                         (stored st L d page w)
                  else stored st L d' page w))"
proof (induction xs arbitrary: w)
  case Nil
  then show ?case by simp
next
  case (Cons x xs)
  show ?case
  proof (cases "db_id x \<noteq> db_id annotation \<and> py_eq (in_reply_to x) aid")
    case False
    with assms have step: "delete_if_reply st service_server d annotation x () w = (Inr (), w)"
      by (auto simp: delete_if_reply_def is_reply_with_id)
    from Cons.prems have "set xs \<subseteq> set (stored st L d None w)" "distinct (map db_id xs)"
      by simp_all
    from Cons.IH [OF Cons.prems(1,2) this] obtain w' where
      w': "for_each (delete_if_reply st service_server d annotation) xs () w = (Inr (), w')"
        "storage_wf st w'" "\<forall>d'. doc_known st w' d' = doc_known st w d'"
        "\<forall>d' page. stored st L d' page w' =
                 (if d' = d
                  then filter (\<lambda>y. \<not> (\<exists>x \<in> set xs. db_id x \<noteq> db_id annotation
                                         \<and> py_eq (in_reply_to x) aid \<and> db_id y = db_id x))
                         (stored st L d page w)
                  else stored st L d' page w)"
      by blast
    from False have same: "(\<exists>z \<in> set (x # xs). db_id z \<noteq> db_id annotation \<and> py_eq (in_reply_to z) aid \<and> db_id y = db_id z)
        = (\<exists>z \<in> set xs. db_id z \<noteq> db_id annotation \<and> py_eq (in_reply_to z) aid \<and> db_id y = db_id z)" for y
      by auto
    from w' show ?thesis
      by (simp only: for_each.simps step prod.case sum.case same) blast
  next
    case True
    from Cons.prems have x: "x \<in> set (stored st L d None w)" by simp
    from stored_delete [OF Cons.prems(1,2) x] obtain w1 where
      w1: "delete_annotation_by_id st service_server d (db_id x) w = (Inr True, w1)"
        "storage_wf st w1" "\<forall>d'. doc_known st w1 d' = doc_known st w d'"
        "\<forall>d' page. stored st L d' page w1 =
                 (if d' = d then filter (\<lambda>y. db_id y \<noteq> db_id x) (stored st L d page w)
                  else stored st L d' page w)"
      by blast
    with True assms have step: "delete_if_reply st service_server d annotation x () w = (Inr (), w1)"
      by (simp add: delete_if_reply_def is_reply_with_id)
    from Cons.prems(3,4) w1(4) have sub: "set xs \<subseteq> set (stored st L d None w1)"
      by (auto simp: image_iff)
    from Cons.prems(4) have dist: "distinct (map db_id xs)" by simp
    from w1(3) Cons.prems(2) have known1: "doc_known st w1 d" by simp
    from Cons.IH [OF w1(2) known1 sub dist] obtain w' where
      w': "for_each (delete_if_reply st service_server d annotation) xs () w1 = (Inr (), w')"
        "storage_wf st w'" "\<forall>d'. doc_known st w' d' = doc_known st w1 d'"
        "\<forall>d' page. stored st L d' page w' =
                 (if d' = d
                  then filter (\<lambda>y. \<not> (\<exists>x \<in> set xs. db_id x \<noteq> db_id annotation
                                         \<and> py_eq (in_reply_to x) aid \<and> db_id y = db_id x))
                         (stored st L d page w1)
                  else stored st L d' page w1)"
      by blast
    have run: "for_each (delete_if_reply st service_server d annotation) (x # xs) () w = (Inr (), w')"
      by (simp only: for_each.simps step prod.case sum.case w'(1))
    have known: "\<forall>d'. doc_known st w' d' = doc_known st w d'"
      using w'(3) w1(3) by simp
    have st: "stored st L d' page w' =
                 (if d' = d
                  then filter (\<lambda>y. \<not> (\<exists>z \<in> set (x # xs). db_id z \<noteq> db_id annotation
                                         \<and> py_eq (in_reply_to z) aid \<and> db_id y = db_id z))
                         (stored st L d page w)
                  else stored st L d' page w)" for d' page
    proof (cases "d' = d")
      case False
      with w'(4) w1(4) show ?thesis by simp
    next
      case same: True
      from w'(4) w1(4) have "stored st L d page w' =
          filter (\<lambda>y. \<not> (\<exists>x \<in> set xs. db_id x \<noteq> db_id annotation
                                         \<and> py_eq (in_reply_to x) aid \<and> db_id y = db_id x))
            (filter (\<lambda>y. db_id y \<noteq> db_id x) (stored st L d page w))"
        by simp
      also have "\<dots> = filter (\<lambda>y. \<not> (\<exists>z \<in> set (x # xs). db_id z \<noteq> db_id annotation
                                         \<and> py_eq (in_reply_to z) aid \<and> db_id y = db_id z))
                         (stored st L d page w)"
        using True by (auto intro: filter_cong)
      finally show ?thesis using same by simp
    qed
    from run w'(2) known st show ?thesis by blast
  qed
qed


text \<open>
  Claim C9, for both backends (the notes backend on the service that stores what it is
  sent). In a well-formed store, deleting an annotation that is stored for the document
  and has a domain id returns true and leaves, of the document's annotations, exactly
  those that are neither the target nor an annotation on the target's page whose
  \<open>inReplyToId\<close> equals the target's domain id. So a reply on another page stays, and so
  does a reply to a reply, whose \<open>inReplyToId\<close> is another id; other documents keep
  what they have.
\<close>

theorem delete_anno_cascade:
  assumes wf: "storage_wf st w" and known: "doc_known st w d"
    and target: "db_id annotation \<in> db_id ` set (stored st (lib cfg) d None w)"
    and aid: "getattr annotation ''id'' = Some aid"
  shows "\<exists>w'. delete_anno st cfg service_server d annotation w = (Inr True, w')
           \<and> stored st (lib cfg) d None w' =
               filter (\<lambda>y. db_id y \<noteq> db_id annotation
                         \<and> \<not> (pageIndex y = pageIndex annotation \<and> py_eq (in_reply_to y) aid))
                 (stored st (lib cfg) d None w)
           \<and> (\<forall>d'. d' \<noteq> d \<longrightarrow> stored st (lib cfg) d' None w' = stored st (lib cfg) d' None w)"
proof -
  let ?L = "lib cfg"
  let ?all = "stored st ?L d None w"
  let ?others = "stored st ?L d (Some (pageIndex annotation)) w"
  let ?reply = "\<lambda>x. db_id x \<noteq> db_id annotation \<and> py_eq (in_reply_to x) aid"
  have others: "?others = filter (\<lambda>a. pageIndex a = pageIndex annotation) ?all"
    by (rule stored_page [OF wf])
  have listing: "get_annotations st cfg service_server d (Some (pageIndex annotation)) w = ((?others, None), w)"
    by (rule stored_listing [OF wf known])
  have sub: "set ?others \<subseteq> set ?all" by (auto simp: others)
  have dist_all: "distinct (map db_id ?all)" by (rule stored_distinct [OF wf])
  have dist: "distinct (map db_id ?others)" by (rule stored_distinct [OF wf])
  from delete_replies [OF aid wf known sub dist] obtain w2 where
    w2: "for_each (delete_if_reply st service_server d annotation) ?others () w = (Inr (), w2)"
      "storage_wf st w2" "\<forall>d'. doc_known st w2 d' = doc_known st w d'"
      "\<forall>d' page. stored st ?L d' page w2 =
                 (if d' = d
                  then filter (\<lambda>y. \<not> (\<exists>x \<in> set ?others. db_id x \<noteq> db_id annotation
                                         \<and> py_eq (in_reply_to x) aid \<and> db_id y = db_id x))
                         (stored st ?L d page w)
                  else stored st ?L d' page w)"
    by blast
  have pick: "y \<in> set ?all \<Longrightarrow>
      (\<exists>x \<in> set ?others. db_id x \<noteq> db_id annotation \<and> py_eq (in_reply_to x) aid \<and> db_id y = db_id x)
        = (pageIndex y = pageIndex annotation \<and> ?reply y)" for y
  proof
    assume y: "y \<in> set ?all"
      and "\<exists>x \<in> set ?others. db_id x \<noteq> db_id annotation \<and> py_eq (in_reply_to x) aid \<and> db_id y = db_id x"
    then obtain x where x: "x \<in> set ?others" "?reply x" "db_id y = db_id x" by blast
    from x(1) sub have "x \<in> set ?all" by blast
    from dist_all this y x(3) [symmetric] have "x = y"
      by (rule distinct_map_eqD)
    moreover from x(1) have "pageIndex x = pageIndex annotation"
      by (simp add: others)
    ultimately show "pageIndex y = pageIndex annotation \<and> ?reply y"
      using x(2) by blast
  next
    assume "y \<in> set ?all" and "pageIndex y = pageIndex annotation \<and> ?reply y"
    then have "y \<in> set ?others" "?reply y"
      by (simp_all add: others)
    then show "\<exists>x \<in> set ?others. db_id x \<noteq> db_id annotation \<and> py_eq (in_reply_to x) aid \<and> db_id y = db_id x"
      by blast
  qed
  from w2(4) have "stored st ?L d None w2 =
      filter (\<lambda>y. \<not> (\<exists>x \<in> set ?others. db_id x \<noteq> db_id annotation
                             \<and> py_eq (in_reply_to x) aid \<and> db_id y = db_id x)) ?all"
    by simp
  also have "\<dots> = filter (\<lambda>y. \<not> (pageIndex y = pageIndex annotation \<and> ?reply y)) ?all"
    by (rule filter_cong [OF refl]) (simp only: pick)
  finally have all2: "stored st ?L d None w2 = filter (\<lambda>y. \<not> (pageIndex y = pageIndex annotation \<and> ?reply y)) ?all" .
  from target obtain x where x: "x \<in> set ?all" "db_id x = db_id annotation" by auto
  then have x2: "x \<in> set (stored st ?L d None w2)"
    by (simp add: all2)
  from w2(3) known have known2: "doc_known st w2 d" by simp
  from stored_delete [OF w2(2) known2 x2] obtain w' where
    w': "delete_annotation_by_id st service_server d (db_id x) w2 = (Inr True, w')"
      "\<forall>d' page. stored st ?L d' page w' =
                 (if d' = d then filter (\<lambda>y. db_id y \<noteq> db_id x) (stored st ?L d page w2)
                  else stored st ?L d' page w2)"
    by blast
  have run: "delete_anno st cfg service_server d annotation w = (Inr True, w')"
    using w'(1) x(2)
    by (simp only: delete_anno_def listing prod.case w2(1) sum.case option.case)
  have final: "stored st ?L d None w' =
               filter (\<lambda>y. db_id y \<noteq> db_id annotation
                         \<and> \<not> (pageIndex y = pageIndex annotation \<and> py_eq (in_reply_to y) aid)) ?all"
  proof -
    from w'(2) have "stored st ?L d None w' = filter (\<lambda>y. db_id y \<noteq> db_id x) (stored st ?L d None w2)"
      by simp
    also have "\<dots> = filter (\<lambda>y. db_id y \<noteq> db_id x)
                       (filter (\<lambda>y. \<not> (pageIndex y = pageIndex annotation \<and> ?reply y)) ?all)"
      by (simp only: all2)
    also have "\<dots> = filter (\<lambda>y. db_id y \<noteq> db_id annotation
                         \<and> \<not> (pageIndex y = pageIndex annotation \<and> py_eq (in_reply_to y) aid)) ?all"
      unfolding filter_filter x(2) by (rule filter_cong [OF refl]) blast
    finally show ?thesis .
  qed
  have rest: "\<forall>d'. d' \<noteq> d \<longrightarrow> stored st ?L d' None w' = stored st ?L d' None w"
    using w'(2) w2(4) by simp
  from run final rest show ?thesis by blast
qed


text \<open>
  The scenario of the claim: annotation A on page 2 with replies B and C on the same
  page, a reply D to A on page 3, and E, a reply to B on page 2. Each backend holds the
  five records for document 1, under the ids 1 to 5: one as rows, one as notes.
\<close>

definition thread_annotation :: "string \<Rightarrow> int \<Rightarrow> string option \<Rightarrow> annotation" where
  "thread_annotation ident page parent =
     \<lparr>created = ''2024-03-01T10:00:00Z'', author = ''alice'', type = 1, pageIndex = page,
      db_id = None, contents = None,
      extra = (''id'', JStr ident) # (case parent of None \<Rightarrow> [] | Some p \<Rightarrow> [(''inReplyToId'', JStr p)])\<rparr>"

definition thread :: "annotation list" where
  "thread =
     [thread_annotation ''A'' 2 None,
      thread_annotation ''B'' 2 (Some ''A''),
      thread_annotation ''C'' 2 (Some ''A''),
      thread_annotation ''D'' 3 (Some ''A''),
      thread_annotation ''E'' 2 (Some ''B'')]"

definition encoded :: "notes_config \<Rightarrow> annotation \<Rightarrow> string" where
  "encoded cfg a = (case anno_to_note_content cfg a of Inl e \<Rightarrow> [] | Inr content \<Rightarrow> content)"

definition empty_service :: service where
  "empty_service =
     \<lparr>svc_documents = [\<lparr>document_id = 1, custom_fields = []\<rparr>], svc_notes = [],
      svc_next_note_id = 1, svc_fields = [], svc_next_field_id = 1, svc_page_size = 25,
      svc_refused = []\<rparr>"

definition thread_table :: "service world" where
  "thread_table =
     \<lparr>remote = empty_service,
      local_table =
        \<lparr>rows =
           map (\<lambda>(i, a). \<lparr>row_id = i, row_doc_id = 1, row_db_id = 0,
                            row_page_index = Some (pageIndex a), row_anno_obj = JObj (model_dump a)\<rparr>)
               (zip [1, 2, 3, 4, 5] thread),
         next_row_id = 6\<rparr>\<rparr>"

definition thread_notes :: "service world" where
  "thread_notes =
     \<lparr>remote =
        empty_service
          \<lparr>svc_notes :=
             map (\<lambda>(i, a). (1, \<lparr>note_id = i, note_text = encoded (example_config JsonSerializer) a\<rparr>))
                 (zip [1, 2, 3, 4, 5] thread),
           svc_next_note_id := 6\<rparr>,
      local_table = \<lparr>rows = [], next_row_id = 1\<rparr>\<rparr>"

definition thread_root :: annotation where
  "thread_root = (thread_annotation ''A'' 2 None)\<lparr>db_id := Some 1\<rparr>"


theorem delete_anno_cascade_witness:
  "(case delete_anno DatabaseAnnotationStorage (example_config JsonSerializer) service_server 1
           thread_root thread_table of
      (Inr True, w') \<Rightarrow>
        map db_id (stored DatabaseAnnotationStorage stand_in_lib 1 None w') = [Some 4, Some 5]
    | _ \<Rightarrow> False)
   \<and> (case delete_anno PaperlessNotesStorage (example_config JsonSerializer) service_server 1
           thread_root thread_notes of
      (Inr True, w') \<Rightarrow>
        map db_id (stored PaperlessNotesStorage stand_in_lib 1 None w') = [Some 4, Some 5]
    | _ \<Rightarrow> False)"
proof -
  let ?cfg = "example_config JsonSerializer"
  have L: "lib ?cfg = stand_in_lib" by (simp add: example_config_def)
  have aid: "getattr thread_root ''id'' = Some (JStr ''A'')" by code_simp
  have one: "(case delete_anno st ?cfg service_server 1 thread_root w of
      (Inr True, w') \<Rightarrow> map db_id (stored st stand_in_lib 1 None w') = [Some 4, Some 5]
    | _ \<Rightarrow> False)"
    if wf: "storage_wf st w" and known: "doc_known st w 1"
      and all: "stored st stand_in_lib 1 None w
                  = map (\<lambda>(i, a). a\<lparr>db_id := Some i\<rparr>) (zip [1, 2, 3, 4, 5] thread)" for st w
  proof -
    have target: "db_id thread_root \<in> db_id ` set (stored st (lib ?cfg) 1 None w)"
      unfolding L all by code_simp
    from delete_anno_cascade [OF wf known target aid] obtain w' where
      run: "delete_anno st ?cfg service_server 1 thread_root w = (Inr True, w')"
      and left: "stored st stand_in_lib 1 None w' =
               filter (\<lambda>y. db_id y \<noteq> db_id thread_root
                         \<and> \<not> (pageIndex y = pageIndex thread_root \<and> py_eq (in_reply_to y) (JStr ''A'')))
                 (stored st stand_in_lib 1 None w)"
      unfolding L by blast
    have "map db_id (filter (\<lambda>y. db_id y \<noteq> db_id thread_root
                         \<and> \<not> (pageIndex y = pageIndex thread_root \<and> py_eq (in_reply_to y) (JStr ''A'')))
                 (map (\<lambda>(i, a). a\<lparr>db_id := Some i\<rparr>) (zip [1, 2, 3, 4, 5] thread))) = [Some 4, Some 5]"
      by code_simp
    with run left all show ?thesis by simp
  qed
  have "storage_wf DatabaseAnnotationStorage thread_table"
    by code_simp
  moreover have "doc_known DatabaseAnnotationStorage thread_table 1"
    by (simp add: doc_known_def)
  moreover have "stored DatabaseAnnotationStorage stand_in_lib 1 None thread_table
                  = map (\<lambda>(i, a). a\<lparr>db_id := Some i\<rparr>) (zip [1, 2, 3, 4, 5] thread)"
    by code_simp
  ultimately have db: "(case delete_anno DatabaseAnnotationStorage ?cfg service_server 1 thread_root thread_table of
      (Inr True, w') \<Rightarrow> map db_id (stored DatabaseAnnotationStorage stand_in_lib 1 None w') = [Some 4, Some 5]
    | _ \<Rightarrow> False)"
    by (rule one)
  have "storage_wf PaperlessNotesStorage thread_notes"
    by (simp add: storage_wf_def thread_notes_def empty_service_def notes_wf_def note_ids_def thread_def)
  moreover have "doc_known PaperlessNotesStorage thread_notes 1"
    by (simp add: doc_known_def thread_notes_def empty_service_def has_document_def)
  moreover have "stored PaperlessNotesStorage stand_in_lib 1 None thread_notes
                  = map (\<lambda>(i, a). a\<lparr>db_id := Some i\<rparr>) (zip [1, 2, 3, 4, 5] thread)"
    by code_simp
  ultimately have nb: "(case delete_anno PaperlessNotesStorage ?cfg service_server 1 thread_root thread_notes of
      (Inr True, w') \<Rightarrow> map db_id (stored PaperlessNotesStorage stand_in_lib 1 None w') = [Some 4, Some 5]
    | _ \<Rightarrow> False)"
    by (rule one)
  from db nb show ?thesis ..
qed

section \<open>Deleting all annotations (claim C8)\<close>

















end
